theory Spec2Isabelle
  imports Complex_Main
begin

section \<open>Decimal values\<close>

text \<open>
  Both source files compute with decimal.js objects and configure the library with
  \<^verbatim>\<open>Decimal.set({ precision: 8, rounding: Decimal.ROUND_DOWN })\<close>.
  A Decimal is a finite decimal fraction, one of the two infinities, or NaN. The finite
  values are modelled by the rational they denote (signed zero is not distinguished).
  The arithmetic methods (\<^verbatim>\<open>plus minus times div\<close>) compute the exact result and then
  round it to \<^verbatim>\<open>precision\<close> significant digits with the configured rounding mode, which
  is truncation toward zero; the constructor, \<^verbatim>\<open>abs\<close>, \<^verbatim>\<open>Decimal.min\<close> and the
  comparisons do not round; \<^verbatim>\<open>toDecimalPlaces(n)\<close> truncates to n decimal places.
\<close>

datatype decimal = NaN | NInf | Fin rat | PInf

definition trunc :: "rat \<Rightarrow> int" where
  "trunc x = (if 0 \<le> x then \<lfloor>x\<rfloor> else \<lceil>x\<rceil>)"

definition pow10 :: "int \<Rightarrow> rat" where
  "pow10 k = (if 0 \<le> k then 10 ^ nat k else 1 / 10 ^ nat (- k))"

definition trunc_at :: "int \<Rightarrow> rat \<Rightarrow> rat" where
  "trunc_at k x = of_int (trunc (x * pow10 k)) / pow10 k"

fun ndigits :: "nat \<Rightarrow> nat" where
  "ndigits n = (if n < 10 then 1 else Suc (ndigits (n div 10)))"

declare ndigits.simps [simp del]

text \<open>
  The decimal exponent of a non-zero value: the exponent \<open>e\<close> of its leading digit,
  \<open>10 ^ e \<le> \<bar>x\<bar> < 10 ^ (e + 1)\<close> (lemma \<open>dec_exponent_bounds\<close> below).
\<close>

definition dec_exponent :: "rat \<Rightarrow> int" where
  "dec_exponent x =
     (if 1 \<le> \<bar>x\<bar> then int (ndigits (nat \<lfloor>\<bar>x\<bar>\<rfloor>)) - 1
      else - int (ndigits (nat \<lceil>1 / \<bar>x\<bar>\<rceil> - 1)))"

text \<open>
  The rounding every arithmetic result goes through: the value is cut toward zero after its
  first \<open>precision\<close> significant digits (lemma \<open>finalise_significant_digits\<close> below).
\<close>

definition precision :: int where
  "precision = 8"

definition finalise :: "rat \<Rightarrow> rat" where
  "finalise x = (if x = 0 then 0 else trunc_at (precision - 1 - dec_exponent x) x)"

fun dec_lt :: "decimal \<Rightarrow> decimal \<Rightarrow> bool" where
  "dec_lt NaN _ = False"
| "dec_lt _ NaN = False"
| "dec_lt (Fin x) (Fin y) = (x < y)"
| "dec_lt NInf NInf = False"
| "dec_lt NInf _ = True"
| "dec_lt _ NInf = False"
| "dec_lt PInf _ = False"
| "dec_lt _ PInf = True"

definition dec_gt :: "decimal \<Rightarrow> decimal \<Rightarrow> bool" where
  "dec_gt a b = dec_lt b a"

definition dec_eq :: "decimal \<Rightarrow> decimal \<Rightarrow> bool" where
  "dec_eq a b = (a \<noteq> NaN \<and> a = b)"

definition dec_lte :: "decimal \<Rightarrow> decimal \<Rightarrow> bool" where
  "dec_lte a b = (dec_lt a b \<or> dec_eq a b)"

definition dec_gte :: "decimal \<Rightarrow> decimal \<Rightarrow> bool" where
  "dec_gte a b = (dec_lt b a \<or> dec_eq a b)"

fun dec_neg :: "decimal \<Rightarrow> decimal" where
  "dec_neg NaN = NaN"
| "dec_neg NInf = PInf"
| "dec_neg PInf = NInf"
| "dec_neg (Fin x) = Fin (- x)"

fun dec_abs :: "decimal \<Rightarrow> decimal" where
  "dec_abs NaN = NaN"
| "dec_abs NInf = PInf"
| "dec_abs PInf = PInf"
| "dec_abs (Fin x) = Fin \<bar>x\<bar>"

fun dec_add :: "decimal \<Rightarrow> decimal \<Rightarrow> decimal" where
  "dec_add NaN _ = NaN"
| "dec_add _ NaN = NaN"
| "dec_add (Fin x) (Fin y) = Fin (finalise (x + y))"
| "dec_add PInf NInf = NaN"
| "dec_add NInf PInf = NaN"
| "dec_add PInf _ = PInf"
| "dec_add NInf _ = NInf"
| "dec_add _ b = b"

definition dec_sub :: "decimal \<Rightarrow> decimal \<Rightarrow> decimal" where
  "dec_sub a b = dec_add a (dec_neg b)"

text \<open>The sign of a Decimal as \<open>-1\<close>, \<open>0\<close>, \<open>1\<close>; NaN has none.\<close>

fun dec_sign :: "decimal \<Rightarrow> int option" where
  "dec_sign NaN = None"
| "dec_sign NInf = Some (- 1)"
| "dec_sign PInf = Some 1"
| "dec_sign (Fin x) = Some (if x < 0 then - 1 else if x = 0 then 0 else 1)"

definition signed_inf :: "int \<Rightarrow> decimal" where
  "signed_inf s = (if s < 0 then NInf else PInf)"

fun dec_mul :: "decimal \<Rightarrow> decimal \<Rightarrow> decimal" where
  "dec_mul (Fin x) (Fin y) = Fin (finalise (x * y))"
| "dec_mul a b =
     (case (dec_sign a, dec_sign b) of
        (Some s, Some t) \<Rightarrow> (if s * t = 0 then NaN else signed_inf (s * t))
      | _ \<Rightarrow> NaN)"

fun is_inf :: "decimal \<Rightarrow> bool" where
  "is_inf NInf = True"
| "is_inf PInf = True"
| "is_inf _ = False"

fun dec_div :: "decimal \<Rightarrow> decimal \<Rightarrow> decimal" where
  "dec_div (Fin x) (Fin y) =
     (if y = 0 then (if x = 0 then NaN else if 0 < x then PInf else NInf)
      else Fin (finalise (x / y)))"
| "dec_div a b =
     (case (dec_sign a, dec_sign b) of
        (Some s, Some t) \<Rightarrow>
          (if is_inf a \<and> is_inf b then NaN
           else if is_inf b then Fin 0
           else signed_inf (if t < 0 then - s else s))
      | _ \<Rightarrow> NaN)"

text \<open>
  \<^verbatim>\<open>Decimal.min(a, b)\<close>: NaN if either argument is NaN, otherwise the first
  argument unless it is greater than the second.
\<close>

definition dec_min :: "decimal \<Rightarrow> decimal \<Rightarrow> decimal" where
  "dec_min a b = (if a = NaN \<or> b = NaN then NaN else if dec_gt a b then b else a)"

fun toDecimalPlaces :: "nat \<Rightarrow> decimal \<Rightarrow> decimal" where
  "toDecimalPlaces n (Fin x) = Fin (trunc_at (int n) x)"
| "toDecimalPlaces n d = d"

section \<open>JavaScript values and errors\<close>

text \<open>
  Exceptions are values. \<open>TypeError\<close> is what the runtime throws on a property access on
  \<^verbatim>\<open>undefined\<close>; \<open>DecimalError\<close> is what decimal.js throws when an argument is not a
  number, a string or a Decimal; \<open>InsufficientFunds\<close> is the \<^verbatim>\<open>Error\<close> that
  \<^verbatim>\<open>_executeHedge\<close> throws when the computed size is not positive; \<open>AdapterError\<close>
  is any rejection coming from a venue adapter; \<open>ReduceFailed e\<close> is the \<^verbatim>\<open>Error\<close>
  that \<^verbatim>\<open>_reduceExposure\<close> builds around the message of \<open>e\<close>.
\<close>

datatype error =
    TypeError
  | DecimalError
  | InsufficientFunds
  | AdapterError string
  | ReduceFailed error

datatype js_value = JBool bool | JString string

fun truthy :: "js_value \<Rightarrow> bool" where
  "truthy (JBool b) = b"
| "truthy (JString s) = (s \<noteq> [])"

text \<open>\<^verbatim>\<open>a || b\<close> on a boolean left operand: \<open>a\<close> when it is true, else \<open>b\<close>.\<close>

definition js_or :: "bool \<Rightarrow> js_value \<Rightarrow> js_value" where
  "js_or a b = (if a then JBool True else b)"

section \<open>The Binance adapters: balance lookup\<close>

text \<open>
  \<^verbatim>\<open>
  async getTotalBalance() {
    const balance = await this.client.balance();
    const asset = balance.find(item => item.asset === this.config.tradeAsset || 'USDT');
    return new Decimal(asset.balance);
  }
  \<close>
  and likewise \<^verbatim>\<open>getAvailableBalance\<close> of the same class (hedge_controls.js) and
  \<^verbatim>\<open>BinanceAdapter.getBalance\<close> (the funding-rate monitor), which returns both fields.
  The input of the model is the list the client resolved to; \<open>===\<close> binds tighter than
  \<open>||\<close>. The configured \<^verbatim>\<open>tradeAsset\<close> may be absent (\<^verbatim>\<open>undefined\<close>), which no
  asset name equals. An empty answer makes \<^verbatim>\<open>find\<close> return \<^verbatim>\<open>undefined\<close>, and the
  field access on it throws.
\<close>

record balance_item =
  asset :: string
  balance :: decimal
  availableBalance :: decimal

record adapter_config =
  tradeAsset :: "string option"

record balances =
  total :: decimal
  available :: decimal

definition asset_pred :: "adapter_config \<Rightarrow> balance_item \<Rightarrow> js_value" where
  "asset_pred cfg item = js_or (Some (asset item) = tradeAsset cfg) (JString ''USDT'')"

definition BinanceHedgeAdapter_getTotalBalance ::
  "adapter_config \<Rightarrow> balance_item list \<Rightarrow> error + decimal" where
  "BinanceHedgeAdapter_getTotalBalance cfg resp =
     (case find (\<lambda>item. truthy (asset_pred cfg item)) resp of
        None \<Rightarrow> Inl TypeError
      | Some a \<Rightarrow> Inr (balance a))"

definition BinanceHedgeAdapter_getAvailableBalance ::
  "adapter_config \<Rightarrow> balance_item list \<Rightarrow> error + decimal" where
  "BinanceHedgeAdapter_getAvailableBalance cfg resp =
     (case find (\<lambda>item. truthy (asset_pred cfg item)) resp of
        None \<Rightarrow> Inl TypeError
      | Some a \<Rightarrow> Inr (availableBalance a))"

definition BinanceAdapter_getBalance ::
  "adapter_config \<Rightarrow> balance_item list \<Rightarrow> error + balances" where
  "BinanceAdapter_getBalance cfg resp =
     (case find (\<lambda>item. truthy (asset_pred cfg item)) resp of
        None \<Rightarrow> Inl TypeError
      | Some a \<Rightarrow> Inr \<lparr>total = balance a, available = availableBalance a\<rparr>)"

section \<open>JavaScript objects and promises\<close>

text \<open>
  A plain object used as a dictionary is an association list in insertion order, which is
  the order \<^verbatim>\<open>Object.keys\<close>, \<^verbatim>\<open>Object.values\<close> and \<^verbatim>\<open>Object.entries\<close>
  enumerate (for keys that are not array indices, as venue names and symbols are).
  \<^verbatim>\<open>obj[k]\<close> is \<open>map_of obj k\<close>, with \<open>None\<close> for \<^verbatim>\<open>undefined\<close>;
  \<^verbatim>\<open>obj[k] = v\<close> replaces the value of an existing key in place and appends a new key.
\<close>

fun obj_set :: "'k \<Rightarrow> 'v \<Rightarrow> ('k \<times> 'v) list \<Rightarrow> ('k \<times> 'v) list" where
  "obj_set k v [] = [(k, v)]"
| "obj_set k v ((k', v') # kvs) =
     (if k' = k then (k, v) # kvs else (k', v') # obj_set k v kvs)"

text \<open>
  \<^verbatim>\<open>await Promise.all([p, q])\<close> on two settled results: the pair of the values, or
  the rejection (of the first in array order when both reject).
\<close>

definition all2 :: "error + 'a \<Rightarrow> error + 'b \<Rightarrow> error + 'a \<times> 'b" where
  "all2 r1 r2 =
     (case r1 of
        Inl e \<Rightarrow> Inl e
      | Inr a \<Rightarrow> (case r2 of Inl e \<Rightarrow> Inl e | Inr b \<Rightarrow> Inr (a, b)))"

section \<open>Effects\<close>

text \<open>
  What the engine does to the outside world is recorded as a trace: the calls it makes on
  venue adapters and the events it emits, in program order. Console output and the
  notification collaborator are left out. A venue adapter is given by the results its
  methods settle to; its calls are recorded by the engine functions that make them.
\<close>

type_synonym venue = string
type_synonym symbol = string

datatype side = Buy | Sell

datatype pos_side = Long | Short

datatype level = Warning | Critical

record order_ref =
  o_symbol :: symbol
  o_orderId :: nat
  o_quantity :: decimal
  o_price :: decimal

record arbitrage_alert =
  a_symbol :: symbol
  a_longExchange :: venue
  a_longRate :: decimal
  a_shortExchange :: venue
  a_shortRate :: decimal
  a_spread :: decimal

record opportunity =
  op_symbol :: symbol
  op_longExchange :: venue
  op_longPrice :: decimal
  op_shortExchange :: venue
  op_shortPrice :: decimal
  op_spread :: decimal
  op_spreadRatio :: decimal

text \<open>
  An entry of \<^verbatim>\<open>HedgeControls.activeHedges\<close>: the opportunity spread into the object,
  the \<^verbatim>\<open>status\<close> string, and the fields present once the hedge is active.
\<close>

record active_hedge =
  ah_opportunity :: opportunity
  ah_status :: string
  ah_longOrder :: "order_ref option"
  ah_shortOrder :: "order_ref option"
  ah_size :: "decimal option"
  ah_entryTime :: "int option"

datatype effect =
    Call_getBalance venue
  | Call_getPrice venue symbol
  | Call_createOrder venue symbol side decimal
  | Call_closePosition venue "symbol option" side decimal
  | Call_getPositions venue
  | Call_getTotalBalance venue
  | Call_getAvailableBalance venue
  | Call_fetchFundingRates venue
  | Call_monitorHedgePosition string
  | Emit_alert level venue symbol decimal
  | Emit_arbitrage arbitrage_alert
  | Emit_riskExceeded decimal
  | Emit_error error
  | Emit_hedgeOpened active_hedge
  | Emit_hedgeFailed string error
  | Emit_hedgingStarted
  | Emit_hedgingStopped

text \<open>
  \<^verbatim>\<open>Promise.all([this.exchanges[v1].f(..), this.exchanges[v2].g(..)])\<close>: the array is
  built left to right, so a venue missing from \<^verbatim>\<open>this.exchanges\<close> throws a TypeError
  at its element, after the calls of the elements before it were made.
\<close>

definition promise_all2 ::
  "(venue \<times> 'ad) list \<Rightarrow> venue \<Rightarrow> ('ad \<Rightarrow> error + 'a) \<Rightarrow> effect
     \<Rightarrow> venue \<Rightarrow> ('ad \<Rightarrow> error + 'b) \<Rightarrow> effect \<Rightarrow> effect list \<times> (error + 'a \<times> 'b)" where
  "promise_all2 exs v1 f1 c1 v2 f2 c2 =
     (case map_of exs v1 of
        None \<Rightarrow> ([], Inl TypeError)
      | Some a1 \<Rightarrow>
          (case map_of exs v2 of
             None \<Rightarrow> ([c1], Inl TypeError)
           | Some a2 \<Rightarrow> ([c1, c2], all2 (f1 a1) (f2 a2))))"

section \<open>The funding-rate monitor\<close>

record rate_info =
  ri_symbol :: symbol
  ri_rate :: decimal
  ri_nextTime :: int

record adapter =
  fetchFundingRates :: "error + rate_info list"
  getBalance :: "error + balances"
  getPrice :: "symbol \<Rightarrow> error + decimal"
  createOrder :: "symbol \<Rightarrow> side \<Rightarrow> decimal \<Rightarrow> error + order_ref"

record rate_entry =
  re_rate :: decimal
  re_nextTime :: int
  re_timestamp :: int

record history_entry =
  he_exchange :: venue
  he_symbol :: symbol
  he_rate :: decimal
  he_timestamp :: int
  he_nextTime :: int

record hedge_position =
  hp_status :: string
  hp_longExchange :: venue
  hp_longOrder :: order_ref
  hp_shortExchange :: venue
  hp_shortOrder :: order_ref
  hp_openedAt :: int

text \<open>
  A value of \<^verbatim>\<open>positionStatus\<close> is the string \<^verbatim>\<open>'opening'\<close> or \<^verbatim>\<open>'failed'\<close>, or
  the object written once both orders are placed.
\<close>

datatype position_status = Status_String string | Status_Object hedge_position

fun status_truthy :: "position_status option \<Rightarrow> bool" where
  "status_truthy None = False"
| "status_truthy (Some (Status_String s)) = (s \<noteq> [])"
| "status_truthy (Some (Status_Object _)) = True"

record thresholds =
  warning :: decimal
  critical :: decimal
  arbitrage :: decimal

record monitor =
  config_thresholds :: thresholds
  config_autoHedge :: bool
  exchanges :: "(venue \<times> adapter) list"
  rates :: "(venue \<times> (symbol \<times> rate_entry) list) list"
  history :: "history_entry list"
  alertCounts :: "(string \<times> int) list"
  positionStatus :: "(string \<times> position_status) list"

text \<open>
  The constructor: default thresholds unless the configuration gives its own, the adapters
  of the three venues, and empty state. (History preloading by \<^verbatim>\<open>_loadHistory\<close>
  replaces \<open>history\<close> by what the history endpoint returned, or leaves it empty on failure.)
\<close>

definition default_thresholds :: thresholds where
  "default_thresholds =
     \<lparr>warning = Fin (5 / 10000), critical = Fin (1 / 1000), arbitrage = Fin (2 / 1000)\<rparr>"

definition FundingRateMonitor ::
  "thresholds option \<Rightarrow> bool \<Rightarrow> adapter \<Rightarrow> adapter \<Rightarrow> adapter \<Rightarrow> monitor" where
  "FundingRateMonitor th auto binance bybit okx =
     \<lparr>config_thresholds = (case th of None \<Rightarrow> default_thresholds | Some t \<Rightarrow> t),
      config_autoHedge = auto,
      exchanges = [(''binance'', binance), (''bybit'', bybit), (''okx'', okx)],
      rates = [], history = [], alertCounts = [], positionStatus = []\<rparr>"

text \<open>\<^verbatim>\<open>(this.alertCounts[alertKey] || 0)\<close>: \<open>0\<close> for a missing or zero count.\<close>

fun or_zero :: "int option \<Rightarrow> int" where
  "or_zero None = 0"
| "or_zero (Some c) = (if c \<noteq> 0 then c else 0)"

text \<open>The object \<^verbatim>\<open>_processRates\<close> pushes to \<^verbatim>\<open>this.history\<close> for one observation.\<close>

definition history_entry_of :: "int \<Rightarrow> venue \<Rightarrow> rate_info \<Rightarrow> history_entry" where
  "history_entry_of now exchange rateInfo =
     \<lparr>he_exchange = exchange, he_symbol = ri_symbol rateInfo, he_rate = ri_rate rateInfo,
      he_timestamp = now, he_nextTime = ri_nextTime rateInfo\<rparr>"

text \<open>
  The body of the \<^verbatim>\<open>rates.forEach\<close> of \<^verbatim>\<open>_processRates\<close>, on the monitor, the
  trace and the local \<^verbatim>\<open>hasCritical\<close>.
\<close>

definition processRate ::
  "int \<Rightarrow> venue \<Rightarrow> monitor \<times> effect list \<times> bool \<Rightarrow> rate_info \<Rightarrow> monitor \<times> effect list \<times> bool" where
  "processRate now exchange acc rateInfo =
     (case acc of (st, tr, hasCritical) \<Rightarrow>
        let symbol = ri_symbol rateInfo;
            rate = ri_rate rateInfo;
            nextTime = ri_nextTime rateInfo;
            exRates = (case map_of (rates st) exchange of None \<Rightarrow> [] | Some r \<Rightarrow> r);
            st1 = st\<lparr>rates := obj_set exchange
                     (obj_set symbol \<lparr>re_rate = rate, re_nextTime = nextTime, re_timestamp = now\<rparr> exRates)
                     (rates st)\<rparr>;
            st2 = st1\<lparr>history := history st1 @ [history_entry_of now exchange rateInfo]\<rparr>;
            absRate = dec_abs rate;
            (tr1, hasCritical1) =
               (if dec_gt absRate (critical (config_thresholds st2))
                then (tr @ [Emit_alert Critical exchange symbol rate], True)
                else if dec_gt absRate (warning (config_thresholds st2))
                then (tr @ [Emit_alert Warning exchange symbol rate], hasCritical)
                else (tr, hasCritical));
            alertKey = exchange @ '':'' @ symbol;
            st3 = (if dec_gt absRate (warning (config_thresholds st2))
                   then st2\<lparr>alertCounts := obj_set alertKey
                           (or_zero (map_of (alertCounts st2) alertKey) + 1) (alertCounts st2)\<rparr>
                   else st2\<lparr>alertCounts := obj_set alertKey 0 (alertCounts st2)\<rparr>)
        in (st3, tr1, hasCritical1))"

text \<open>
  \<^verbatim>\<open>_checkHedging\<close> starts \<^verbatim>\<open>_monitorHedgePosition(key)\<close> for every entry whose value
  is strictly equal to the string \<^verbatim>\<open>'opened'\<close>. The monitor itself runs asynchronously,
  after \<^verbatim>\<open>_processRates\<close> has returned; its start is recorded in the trace.
\<close>

definition checkHedging :: "monitor \<Rightarrow> effect list" where
  "checkHedging st =
     map (\<lambda>(key, status). Call_monitorHedgePosition key)
       (filter (\<lambda>(key, status). status = Status_String ''opened'') (positionStatus st))"

definition processRates :: "int \<Rightarrow> venue \<Rightarrow> rate_info list \<Rightarrow> monitor \<Rightarrow> monitor \<times> effect list" where
  "processRates now exchange rs st =
     (case foldl (processRate now exchange) (st, [], False) rs of
        (st', tr, hasCritical) \<Rightarrow> (st', tr @ (if hasCritical then checkHedging st' else [])))"

definition findCommonSymbols :: "monitor \<Rightarrow> symbol list" where
  "findCommonSymbols st =
     (case map (\<lambda>(exchange, exchangeRates). map fst exchangeRates) (rates st) of
        [] \<Rightarrow> []
      | a # bs \<Rightarrow> foldl (\<lambda>a b. filter (\<lambda>x. x \<in> set b) a) a bs)"

definition findMaxRate :: "(venue \<times> decimal) list \<Rightarrow> venue \<times> decimal" where
  "findMaxRate rs =
     foldl (\<lambda>max (exchange, rate). if dec_gt rate (snd max) then (exchange, rate) else max)
       ([], NInf) rs"

definition findMinRate :: "(venue \<times> decimal) list \<Rightarrow> venue \<times> decimal" where
  "findMinRate rs =
     foldl (\<lambda>min (exchange, rate). if dec_lt rate (snd min) then (exchange, rate) else min)
       ([], PInf) rs"

text \<open>
  The \<^verbatim>\<open>try\<close> block of \<^verbatim>\<open>_executeHedge\<close>: balances, size, prices, quantities and the
  two orders; the result is the thrown error or the record stored on success.
\<close>

definition openHedge ::
  "int \<Rightarrow> (venue \<times> adapter) list \<Rightarrow> symbol \<Rightarrow> venue \<Rightarrow> venue
     \<Rightarrow> effect list \<times> (error + hedge_position)" where
  "openHedge now exs symbol longExchange shortExchange =
     (case promise_all2 exs longExchange getBalance (Call_getBalance longExchange)
                            shortExchange getBalance (Call_getBalance shortExchange) of
        (tr1, Inl e) \<Rightarrow> (tr1, Inl e)
      | (tr1, Inr (longBal, shortBal)) \<Rightarrow>
          let maxSize = toDecimalPlaces 8
                (dec_mul (dec_min (available longBal) (available shortBal)) (Fin (1 / 2)))
          in if dec_lte maxSize (Fin 0) then (tr1, Inl InsufficientFunds)
             else
               (case promise_all2 exs
                       longExchange (\<lambda>a. getPrice a symbol) (Call_getPrice longExchange symbol)
                       shortExchange (\<lambda>a. getPrice a symbol) (Call_getPrice shortExchange symbol) of
                  (tr2, Inl e) \<Rightarrow> (tr1 @ tr2, Inl e)
                | (tr2, Inr (longPrice, shortPrice)) \<Rightarrow>
                    let longQty = toDecimalPlaces 8 (dec_div maxSize longPrice);
                        shortQty = toDecimalPlaces 8 (dec_div maxSize shortPrice)
                    in (case promise_all2 exs
                              longExchange (\<lambda>a. createOrder a symbol Buy longQty)
                                (Call_createOrder longExchange symbol Buy longQty)
                              shortExchange (\<lambda>a. createOrder a symbol Sell shortQty)
                                (Call_createOrder shortExchange symbol Sell shortQty) of
                          (tr3, Inl e) \<Rightarrow> (tr1 @ tr2 @ tr3, Inl e)
                        | (tr3, Inr (longOrder, shortOrder)) \<Rightarrow>
                            (tr1 @ tr2 @ tr3,
                             Inr \<lparr>hp_status = ''opened'', hp_longExchange = longExchange,
                                  hp_longOrder = longOrder, hp_shortExchange = shortExchange,
                                  hp_shortOrder = shortOrder, hp_openedAt = now\<rparr>))))"

definition hedge_key :: "symbol \<Rightarrow> venue \<Rightarrow> venue \<Rightarrow> string" where
  "hedge_key symbol longExchange shortExchange =
     symbol @ '':'' @ longExchange @ '':'' @ shortExchange"

text \<open>
  \<^verbatim>\<open>_executeHedge(symbol, longExchange, shortExchange)\<close>: the guard on
  \<^verbatim>\<open>positionStatus[key]\<close>, the \<^verbatim>\<open>'opening'\<close> marker, the \<^verbatim>\<open>try\<close> block, and the
  \<^verbatim>\<open>catch\<close> that stores \<^verbatim>\<open>'failed'\<close>. The function is \<^verbatim>\<open>async\<close> and its caller does
  not await it; the guard and the marker run at the call, before the first \<^verbatim>\<open>await\<close>.
  The model runs the whole body at the call, which gives the effects on one key in their
  order; every value the key holds on the way (\<^verbatim>\<open>'opening'\<close>, then the record or
  \<^verbatim>\<open>'failed'\<close>) is truthy.
\<close>

definition executeHedge :: "int \<Rightarrow> monitor \<Rightarrow> symbol \<Rightarrow> venue \<Rightarrow> venue \<Rightarrow> monitor \<times> effect list" where
  "executeHedge now st symbol longExchange shortExchange =
     (let key = hedge_key symbol longExchange shortExchange in
      if status_truthy (map_of (positionStatus st) key) then (st, [])
      else
        let st1 = st\<lparr>positionStatus := obj_set key (Status_String ''opening'') (positionStatus st)\<rparr>
        in (case openHedge now (exchanges st1) symbol longExchange shortExchange of
              (tr, Inr rec) \<Rightarrow>
                (st1\<lparr>positionStatus := obj_set key (Status_Object rec) (positionStatus st1)\<rparr>, tr)
            | (tr, Inl err) \<Rightarrow>
                (st1\<lparr>positionStatus := obj_set key (Status_String ''failed'') (positionStatus st1)\<rparr>, tr)))"

definition triggerArbitrageAlert ::
  "int \<Rightarrow> monitor \<Rightarrow> symbol \<Rightarrow> venue \<Rightarrow> decimal \<Rightarrow> venue \<Rightarrow> decimal \<Rightarrow> monitor \<times> effect list" where
  "triggerArbitrageAlert now st symbol longExchange longRate shortExchange shortRate =
     (let spread = dec_sub longRate shortRate;
          alert = \<lparr>a_symbol = symbol, a_longExchange = longExchange, a_longRate = longRate,
                   a_shortExchange = shortExchange, a_shortRate = shortRate, a_spread = spread\<rparr>
      in if config_autoHedge st
         then (case executeHedge now st symbol longExchange shortExchange of
                 (st', tr) \<Rightarrow> (st', Emit_arbitrage alert # tr))
         else (st, [Emit_arbitrage alert]))"

text \<open>
  The rates collected for one symbol in \<^verbatim>\<open>_checkArbitrageOpportunities\<close>: one entry per
  venue of \<^verbatim>\<open>this.exchanges\<close>, in that order, that has a stored rate for the symbol.
\<close>

definition collectRates :: "monitor \<Rightarrow> symbol \<Rightarrow> (venue \<times> decimal) list" where
  "collectRates st symbol =
     concat (map (\<lambda>(exchange, ad).
        (case map_of (rates st) exchange of
           None \<Rightarrow> []
         | Some exchangeRates \<Rightarrow>
             (case map_of exchangeRates symbol of
                None \<Rightarrow> []
              | Some e \<Rightarrow> [(exchange, re_rate e)]))) (exchanges st))"

definition checkSymbol :: "int \<Rightarrow> monitor \<times> effect list \<Rightarrow> symbol \<Rightarrow> monitor \<times> effect list" where
  "checkSymbol now acc symbol =
     (case acc of (st, tr) \<Rightarrow>
        let rs = collectRates st symbol in
        if 2 \<le> length rs then
          (case (findMaxRate rs, findMinRate rs) of
             ((maxExchange, maxRate), (minExchange, minRate)) \<Rightarrow>
               let spread = dec_sub maxRate minRate in
               if dec_gt spread (arbitrage (config_thresholds st))
               then (case triggerArbitrageAlert now st symbol maxExchange maxRate minExchange minRate of
                       (st', tr') \<Rightarrow> (st', tr @ tr'))
               else (st, tr))
        else (st, tr))"

definition checkArbitrageOpportunities :: "int \<Rightarrow> monitor \<Rightarrow> monitor \<times> effect list" where
  "checkArbitrageOpportunities now st = foldl (checkSymbol now) (st, []) (findCommonSymbols st)"

text \<open>
  \<^verbatim>\<open>_checkAllExchanges\<close>: every venue is asked for its funding rates, the fulfilled
  answers are processed in venue order, then the arbitrage scan runs.
\<close>

definition checkAllExchanges :: "int \<Rightarrow> monitor \<Rightarrow> monitor \<times> effect list" where
  "checkAllExchanges now st =
     (case foldl (\<lambda>(s, tr) (name, ad).
                (case fetchFundingRates ad of
                   Inl e \<Rightarrow> (s, tr)
                 | Inr rs \<Rightarrow> (case processRates now name rs s of (s', tr') \<Rightarrow> (s', tr @ tr')))
             ) (st, map (\<lambda>(name, ad). Call_fetchFundingRates name) (exchanges st)) (exchanges st) of
        (s, tr) \<Rightarrow> (case checkArbitrageOpportunities now s of (s', tr') \<Rightarrow> (s', tr @ tr')))"

section \<open>The hedge controller\<close>

text \<open>
  A position as a venue reports it. \<^verbatim>\<open>_flattenPositions\<close> and
  \<^verbatim>\<open>_closePositionsUntilTarget\<close> read \<^verbatim>\<open>pos.symbol\<close>, a field the Binance adapter's
  \<^verbatim>\<open>getPositions\<close> does not set, so it is optional (\<open>None\<close> for \<^verbatim>\<open>undefined\<close>).
\<close>

record position =
  pos_symbol :: "symbol option"
  pos_side :: pos_side
  pos_size :: decimal
  pos_markPrice :: decimal
  pos_unrealizedPnl :: decimal

record hedge_adapter =
  h_getPositions :: "error + (symbol \<times> position) list"
  h_getPrice :: "symbol \<Rightarrow> error + decimal"
  h_createOrder :: "symbol \<Rightarrow> side \<Rightarrow> decimal \<Rightarrow> error + order_ref"
  h_closePosition :: "symbol option \<Rightarrow> side \<Rightarrow> decimal \<Rightarrow> error + order_ref"
  h_getTotalBalance :: "error + decimal"
  h_getAvailableBalance :: "error + decimal"

record flat_position =
  fp_exchange :: venue
  fp_symbol :: "symbol option"
  fp_side :: pos_side
  fp_size :: decimal
  fp_markPrice :: decimal
  fp_unrealizedPnl :: decimal

text \<open>
  The fields of a \<^verbatim>\<open>HedgeControls\<close> object. \<open>hc_activeHedges\<close> is \<open>None\<close> while
  the property \<^verbatim>\<open>activeHedges\<close> does not exist on the object (reading it gives
  \<^verbatim>\<open>undefined\<close>).
\<close>

record hedge_controls =
  hc_maxExposure :: decimal
  hc_exchanges :: "(venue \<times> hedge_adapter) list"
  hc_exposure :: decimal
  hc_pnl_daily :: decimal
  hc_pnl_total :: decimal
  hc_volatility :: decimal
  hc_isHedgingActive :: bool
  hc_emergencyStop :: bool
  hc_activeHedges :: "(string \<times> active_hedge) list option"

text \<open>
  The constructor assigns \<^verbatim>\<open>config\<close>, \<^verbatim>\<open>exchanges\<close>, \<^verbatim>\<open>positions\<close>,
  \<^verbatim>\<open>exposure\<close>, \<^verbatim>\<open>pnl\<close>, \<^verbatim>\<open>riskParams\<close>, \<^verbatim>\<open>isHedgingActive\<close> and
  \<^verbatim>\<open>emergencyStop\<close>, and nothing else. Its arguments here are the configured
  \<^verbatim>\<open>maxExposure\<close>, if any, and the adapters \<^verbatim>\<open>_initExchanges\<close> built.
\<close>

definition HedgeControls :: "decimal option \<Rightarrow> (venue \<times> hedge_adapter) list \<Rightarrow> hedge_controls" where
  "HedgeControls maxExp exs =
     \<lparr>hc_maxExposure = (case maxExp of None \<Rightarrow> Fin (1 / 10) | Some m \<Rightarrow> m),
      hc_exchanges = exs,
      hc_exposure = Fin 0,
      hc_pnl_daily = Fin 0,
      hc_pnl_total = Fin 0,
      hc_volatility = Fin 0,
      hc_isHedgingActive = False,
      hc_emergencyStop = False,
      hc_activeHedges = None\<rparr>"

text \<open>\<^verbatim>\<open>await Promise.all(list)\<close> on settled results.\<close>

fun promise_all :: "(error + 'a) list \<Rightarrow> error + 'a list" where
  "promise_all [] = Inr []"
| "promise_all (r # rs) =
     (case r of
        Inl e \<Rightarrow> Inl e
      | Inr a \<Rightarrow> (case promise_all rs of Inl e \<Rightarrow> Inl e | Inr as \<Rightarrow> Inr (a # as)))"

text \<open>
  What an \<^verbatim>\<open>async\<close> function returns to a caller that does not \<^verbatim>\<open>await\<close> it: a
  promise object, whatever it will settle to.
\<close>

datatype 'a promise = Promise "error + 'a"

text \<open>
  The argument of a Decimal method goes through the Decimal constructor, which accepts
  Decimals (numbers and numeric strings are modelled as Decimals already) and throws on
  any other object.
\<close>

datatype decimal_arg = Arg_Decimal decimal | Arg_Promise "decimal promise"

fun Decimal :: "decimal_arg \<Rightarrow> error + decimal" where
  "Decimal (Arg_Decimal d) = Inr d"
| "Decimal (Arg_Promise p) = Inl DecimalError"

definition getAllPositions ::
  "hedge_controls \<Rightarrow> effect list \<times> (error + (venue \<times> (symbol \<times> position) list) list)" where
  "getAllPositions st =
     (map (\<lambda>(name, exchange). Call_getPositions name) (hc_exchanges st),
      promise_all (map (\<lambda>(name, exchange).
         (case h_getPositions exchange of Inl e \<Rightarrow> Inl e | Inr ps \<Rightarrow> Inr (name, ps)))
         (hc_exchanges st)))"

text \<open>
  \<^verbatim>\<open>async _getTotalPortfolioValue()\<close>: called without \<^verbatim>\<open>await\<close>, it makes the
  \<^verbatim>\<open>getTotalBalance\<close> calls and hands back a promise of the sum.
\<close>

definition getTotalPortfolioValue :: "hedge_controls \<Rightarrow> effect list \<times> decimal promise" where
  "getTotalPortfolioValue st =
     (map (\<lambda>(name, exchange). Call_getTotalBalance name) (hc_exchanges st),
      Promise (case promise_all (map (\<lambda>(name, exchange). h_getTotalBalance exchange) (hc_exchanges st)) of
                 Inl e \<Rightarrow> Inl e
               | Inr bs \<Rightarrow> Inr (foldl dec_add (Fin 0) bs)))"

text \<open>
  \<^verbatim>\<open>
  _calculateNetExposure(positions) {
    let netExposure = new Decimal('0');
    Object.values(positions).forEach(exchangePositions => {
      Object.values(exchangePositions).forEach(pos => {
        const value = new Decimal(pos.size).mul(pos.markPrice);
        netExposure = pos.side === 'long' ? netExposure.add(value) : netExposure.sub(value);
      });
    });
    return netExposure.div(this._getTotalPortfolioValue());
  }
  \<close>
\<close>

definition netValue :: "(venue \<times> (symbol \<times> position) list) list \<Rightarrow> decimal" where
  "netValue positions =
     foldl (\<lambda>netExposure pos.
         let v = dec_mul (pos_size pos) (pos_markPrice pos)
         in if pos_side pos = Long then dec_add netExposure v else dec_sub netExposure v)
       (Fin 0) (concat (map (\<lambda>(name, exchangePositions). map snd exchangePositions) positions))"

definition calculateNetExposure ::
  "hedge_controls \<Rightarrow> (venue \<times> (symbol \<times> position) list) list \<Rightarrow> effect list \<times> (error + decimal)" where
  "calculateNetExposure st positions =
     (let netExposure = netValue positions in
      case getTotalPortfolioValue st of
        (tr, p) \<Rightarrow>
          (tr, case Decimal (Arg_Promise p) of
                 Inl e \<Rightarrow> Inl e
               | Inr totalValue \<Rightarrow> Inr (dec_div netExposure totalValue)))"

definition flattenPositions :: "(venue \<times> (symbol \<times> position) list) list \<Rightarrow> flat_position list" where
  "flattenPositions positionsByExchange =
     concat (map (\<lambda>(exchange, positions).
        map (\<lambda>(k, pos). \<lparr>fp_exchange = exchange, fp_symbol = pos_symbol pos, fp_side = pos_side pos,
                          fp_size = pos_size pos, fp_markPrice = pos_markPrice pos,
                          fp_unrealizedPnl = pos_unrealizedPnl pos\<rparr>) positions)
        positionsByExchange)"

text \<open>
  \<^verbatim>\<open>.sort((a, b) => a.unrealizedPnl - b.unrealizedPnl)\<close>: a stable sort, ascending. The
  comparator subtracts the two values as JavaScript numbers; the model takes the order of
  the exact values.
\<close>

fun insort_pnl :: "flat_position \<Rightarrow> flat_position list \<Rightarrow> flat_position list" where
  "insort_pnl x [] = [x]"
| "insort_pnl x (y # ys) =
     (if dec_lt (fp_unrealizedPnl y) (fp_unrealizedPnl x) then y # insort_pnl x ys
      else x # y # ys)"

definition sort_pnl :: "flat_position list \<Rightarrow> flat_position list" where
  "sort_pnl xs = foldr insort_pnl xs []"

text \<open>
  \<^verbatim>\<open>_closePositionsUntilTarget(positions, targetUsd)\<close>: the \<^verbatim>\<open>for\<close> loop with its
  \<^verbatim>\<open>break\<close>, and the \<^verbatim>\<open>try\<close>/\<^verbatim>\<open>catch\<close> around each close, which leaves
  \<^verbatim>\<open>remaining\<close> as it was when the close fails.
\<close>

fun closePositionsUntilTarget ::
  "(venue \<times> hedge_adapter) list \<Rightarrow> flat_position list \<Rightarrow> decimal \<Rightarrow> effect list" where
  "closePositionsUntilTarget exs [] remaining = []"
| "closePositionsUntilTarget exs (pos # rest) remaining =
     (if dec_lte remaining (Fin 0) then []
      else
        let closeSize = dec_min (fp_size pos) (dec_div remaining (fp_markPrice pos));
            sd = (if fp_side pos = Long then Sell else Buy)
        in (case map_of exs (fp_exchange pos) of
              None \<Rightarrow> closePositionsUntilTarget exs rest remaining
            | Some exchange \<Rightarrow>
                Call_closePosition (fp_exchange pos) (fp_symbol pos) sd closeSize #
                (case h_closePosition exchange (fp_symbol pos) sd closeSize of
                   Inl e \<Rightarrow> closePositionsUntilTarget exs rest remaining
                 | Inr ord \<Rightarrow>
                     closePositionsUntilTarget exs rest
                       (dec_sub remaining (dec_mul closeSize (fp_markPrice pos))))))"

text \<open>
  \<^verbatim>\<open>
  async _reduceExposure() {
    if (this.emergencyStop) return;
    try {
      const reduceSide = this.exposure.gt('0') ? 'long' : 'short';
      const positions = await this._getAllPositions();
      const flatPositions = this._flattenPositions(positions);
      const sortedPositions = flatPositions
        .filter(p => p.side === reduceSide)
        .sort((a, b) => a.unrealizedPnl - b.unrealizedPnl);
      const targetReduction = this.exposure.abs().sub(this.config.maxExposure.mul('0.8'));
      const usdToReduce = targetReduction.mul(this._getTotalPortfolioValue());
      await this._closePositionsUntilTarget(sortedPositions, usdToReduce);
    } catch (err) {
      this.emit('error', new Error(`...: ${err.message}`));
    }
  }
  \<close>
\<close>

definition reduceExposure :: "hedge_controls \<Rightarrow> effect list" where
  "reduceExposure st =
     (if hc_emergencyStop st then []
      else
        let reduceSide = (if dec_gt (hc_exposure st) (Fin 0) then Long else Short) in
        case getAllPositions st of
          (tr1, Inl e) \<Rightarrow> tr1 @ [Emit_error (ReduceFailed e)]
        | (tr1, Inr positions) \<Rightarrow>
            let flatPositions = flattenPositions positions;
                sortedPositions = sort_pnl (filter (\<lambda>p. fp_side p = reduceSide) flatPositions);
                targetReduction = dec_sub (dec_abs (hc_exposure st))
                                    (dec_mul (hc_maxExposure st) (Fin (8 / 10)))
            in (case getTotalPortfolioValue st of
                  (tr2, p) \<Rightarrow>
                    (case Decimal (Arg_Promise p) of
                       Inl e \<Rightarrow> tr1 @ tr2 @ [Emit_error (ReduceFailed e)]
                     | Inr totalValue \<Rightarrow>
                         tr1 @ tr2 @
                         closePositionsUntilTarget (hc_exchanges st) sortedPositions
                           (dec_mul targetReduction totalValue))))"

definition estimateCurrentVolatility :: decimal where
  "estimateCurrentVolatility = Fin (2 / 100)"

definition updateVolatility :: "hedge_controls \<Rightarrow> hedge_controls" where
  "updateVolatility st =
     st\<lparr>hc_volatility := dec_add (dec_mul (hc_volatility st) (Fin (9 / 10)))
                            (dec_mul estimateCurrentVolatility (Fin (1 / 10)))\<rparr>"

text \<open>
  \<^verbatim>\<open>
  async _calculateRiskExposure() {
    try {
      const allPositions = await this._getAllPositions();
      const exposure = this._calculateNetExposure(allPositions);
      this.exposure = exposure;
      if (exposure.abs().gt(this.config.maxExposure)) {
        this.emit('riskExceeded', exposure.toNumber());
        await this._reduceExposure();
      }
      await this._updateVolatility();
    } catch (err) {
      this.emit('error', err);
    }
  }
  \<close>
\<close>

definition calculateRiskExposure :: "hedge_controls \<Rightarrow> hedge_controls \<times> effect list" where
  "calculateRiskExposure st =
     (case getAllPositions st of
        (tr1, Inl e) \<Rightarrow> (st, tr1 @ [Emit_error e])
      | (tr1, Inr allPositions) \<Rightarrow>
          (case calculateNetExposure st allPositions of
             (tr2, Inl e) \<Rightarrow> (st, tr1 @ tr2 @ [Emit_error e])
           | (tr2, Inr exposure) \<Rightarrow>
               let st1 = st\<lparr>hc_exposure := exposure\<rparr>;
                   tr3 = (if dec_gt (dec_abs exposure) (hc_maxExposure st1)
                          then Emit_riskExceeded exposure # reduceExposure st1 else [])
               in (updateVolatility st1, tr1 @ tr2 @ tr3)))"

definition calculateHedgeSize ::
  "(venue \<times> hedge_adapter) list \<Rightarrow> opportunity \<Rightarrow> effect list \<times> (error + decimal)" where
  "calculateHedgeSize exs opp =
     (case promise_all2 exs
             (op_longExchange opp) h_getAvailableBalance (Call_getAvailableBalance (op_longExchange opp))
             (op_shortExchange opp) h_getAvailableBalance (Call_getAvailableBalance (op_shortExchange opp)) of
        (tr, Inl e) \<Rightarrow> (tr, Inl e)
      | (tr, Inr (longBalance, shortBalance)) \<Rightarrow>
          let maxLongSize = dec_div longBalance (op_longPrice opp);
              maxShortSize = dec_div shortBalance (op_shortPrice opp);
              maxSize = dec_min maxLongSize maxShortSize;
              riskAdjustedSize = dec_mul maxSize (Fin (1 / 10))
          in (tr, Inr (toDecimalPlaces 8 riskAdjustedSize)))"

text \<open>
  \<^verbatim>\<open>HedgeControls._executeHedge(opportunity)\<close>. The third component is how the
  \<^verbatim>\<open>async\<close> function settles: \<open>Inl\<close> is a rejection. Reading \<^verbatim>\<open>this.activeHedges[key]\<close>
  on a missing table throws before the \<^verbatim>\<open>try\<close> block is entered.
\<close>

definition HedgeControls_executeHedge ::
  "int \<Rightarrow> hedge_controls \<Rightarrow> opportunity \<Rightarrow> hedge_controls \<times> effect list \<times> (error + unit)" where
  "HedgeControls_executeHedge now st opp =
     (let symbol = op_symbol opp;
          longExchange = op_longExchange opp;
          shortExchange = op_shortExchange opp;
          key = hedge_key symbol longExchange shortExchange
      in case hc_activeHedges st of
           None \<Rightarrow> (st, [], Inl TypeError)
         | Some hedges \<Rightarrow>
             if map_of hedges key \<noteq> None then (st, [], Inr ())
             else
               let opening = \<lparr>ah_opportunity = opp, ah_status = ''opening'', ah_longOrder = None,
                               ah_shortOrder = None, ah_size = None, ah_entryTime = None\<rparr>;
                   hedges1 = obj_set key opening hedges;
                   failed = (\<lambda>tr e.
                      (st\<lparr>hc_activeHedges := Some (obj_set key (opening\<lparr>ah_status := ''failed''\<rparr>) hedges1)\<rparr>,
                       tr @ [Emit_hedgeFailed key e], Inr ()))
               in (case calculateHedgeSize (hc_exchanges st) opp of
                     (tr1, Inl e) \<Rightarrow> failed tr1 e
                   | (tr1, Inr hedgeSize) \<Rightarrow>
                       (case promise_all2 (hc_exchanges st)
                               longExchange (\<lambda>a. h_createOrder a symbol Buy hedgeSize)
                                 (Call_createOrder longExchange symbol Buy hedgeSize)
                               shortExchange (\<lambda>a. h_createOrder a symbol Sell hedgeSize)
                                 (Call_createOrder shortExchange symbol Sell hedgeSize) of
                          (tr2, Inl e) \<Rightarrow> failed (tr1 @ tr2) e
                        | (tr2, Inr (longOrder, shortOrder)) \<Rightarrow>
                            let h = \<lparr>ah_opportunity = opp, ah_status = ''active'',
                                     ah_longOrder = Some longOrder, ah_shortOrder = Some shortOrder,
                                     ah_size = Some hedgeSize, ah_entryTime = Some now\<rparr>
                            in (st\<lparr>hc_activeHedges := Some (obj_set key h hedges1)\<rparr>,
                                tr1 @ tr2 @ [Emit_hedgeOpened h], Inr ()))))"

text \<open>
  \<^verbatim>\<open>_monitorActiveHedges\<close> maps an \<^verbatim>\<open>async\<close> callback over
  \<^verbatim>\<open>Object.entries(this.activeHedges)\<close>; the callback (prices, take-profit, stop-loss,
  each inside its own \<^verbatim>\<open>try\<close>/\<^verbatim>\<open>catch\<close>) is a parameter of the model.
\<close>

definition monitorActiveHedges ::
  "(string \<times> active_hedge \<Rightarrow> hedge_controls \<times> effect list \<Rightarrow> hedge_controls \<times> effect list)
     \<Rightarrow> hedge_controls \<Rightarrow> hedge_controls \<times> effect list \<times> (error + unit)" where
  "monitorActiveHedges callback st =
     (case hc_activeHedges st of
        None \<Rightarrow> (st, [], Inl TypeError)
      | Some hedges \<Rightarrow>
          (case foldl (\<lambda>acc entry. callback entry acc) (st, []) hedges of
             (st', tr) \<Rightarrow> (st', tr, Inr ())))"

record status_report =
  sr_active :: bool
  sr_emergencyStop :: bool
  sr_exposure :: decimal
  sr_pnl_daily :: decimal
  sr_pnl_total :: decimal
  sr_activeHedges :: nat
  sr_volatility :: decimal

definition getStatus :: "hedge_controls \<Rightarrow> error + status_report" where
  "getStatus st =
     (case hc_activeHedges st of
        None \<Rightarrow> Inl TypeError
      | Some hedges \<Rightarrow>
          Inr \<lparr>sr_active = hc_isHedgingActive st, sr_emergencyStop = hc_emergencyStop st,
               sr_exposure = hc_exposure st, sr_pnl_daily = hc_pnl_daily st,
               sr_pnl_total = hc_pnl_total st, sr_activeHedges = length hedges,
               sr_volatility = hc_volatility st\<rparr>)"

text \<open>
  \<^verbatim>\<open>startHedging()\<close> and \<^verbatim>\<open>stopHedging()\<close> set the flag
  \<^verbatim>\<open>isHedgingActive\<close> and emit their event. \<^verbatim>\<open>_handleMarketUpdate\<close> hands a ticker
  to \<^verbatim>\<open>_checkHedgeOpportunity\<close>, and so an opportunity to \<^verbatim>\<open>_executeHedge\<close>, only
  while the flag is set.
\<close>

definition startHedging :: "hedge_controls \<Rightarrow> hedge_controls \<times> effect list" where
  "startHedging st = (st\<lparr>hc_isHedgingActive := True\<rparr>, [Emit_hedgingStarted])"

definition stopHedging :: "hedge_controls \<Rightarrow> hedge_controls \<times> effect list" where
  "stopHedging st = (st\<lparr>hc_isHedgingActive := False\<rparr>, [Emit_hedgingStopped])"

section \<open>Adapters used in the examples\<close>

text \<open>
  \<^verbatim>\<open>class ExchangeAdapter\<close>, which the Bybit and OKX adapters inherit unchanged: every
  method throws \<^verbatim>\<open>Error('Not implemented')\<close>.
\<close>

definition ExchangeAdapter :: adapter where
  "ExchangeAdapter =
     \<lparr>fetchFundingRates = Inl (AdapterError ''Not implemented''),
      getBalance = Inl (AdapterError ''Not implemented''),
      getPrice = (\<lambda>symbol. Inl (AdapterError ''Not implemented'')),
      createOrder = (\<lambda>symbol sd quantity. Inl (AdapterError ''Not implemented''))\<rparr>"

text \<open>
  A venue that reports one funding rate for BTCUSDT, the same total and available balance,
  one mark price, and fills every order in full at that price.
\<close>

definition filling_venue :: "rat \<Rightarrow> rat \<Rightarrow> rat \<Rightarrow> adapter" where
  "filling_venue r bal p =
     \<lparr>fetchFundingRates = Inr [\<lparr>ri_symbol = ''BTCUSDT'', ri_rate = Fin r, ri_nextTime = 0\<rparr>],
      getBalance = Inr \<lparr>total = Fin bal, available = Fin bal\<rparr>,
      getPrice = (\<lambda>symbol. Inr (Fin p)),
      createOrder = (\<lambda>symbol sd quantity.
         Inr \<lparr>o_symbol = symbol, o_orderId = 1, o_quantity = quantity, o_price = Fin p\<rparr>)\<rparr>"

text \<open>The same venue, rejecting every order.\<close>

definition rejecting_venue :: "rat \<Rightarrow> rat \<Rightarrow> rat \<Rightarrow> adapter" where
  "rejecting_venue r bal p =
     (filling_venue r bal p)\<lparr>createOrder := (\<lambda>symbol sd quantity. Inl (AdapterError ''rejected''))\<rparr>"

text \<open>
  A hedge-controller venue that reports the given positions and the same total and
  available balance, quotes 100 for every symbol, and fills every order and close.
\<close>

definition holding_venue :: "(symbol \<times> position) list \<Rightarrow> rat \<Rightarrow> hedge_adapter" where
  "holding_venue ps bal =
     \<lparr>h_getPositions = Inr ps,
      h_getPrice = (\<lambda>symbol. Inr (Fin 100)),
      h_createOrder = (\<lambda>symbol sd quantity.
         Inr \<lparr>o_symbol = symbol, o_orderId = 1, o_quantity = quantity, o_price = Fin 100\<rparr>),
      h_closePosition = (\<lambda>symbol sd quantity.
         Inr \<lparr>o_symbol = (case symbol of None \<Rightarrow> [] | Some s \<Rightarrow> s), o_orderId = 2,
              o_quantity = quantity, o_price = Fin 100\<rparr>),
      h_getTotalBalance = Inr (Fin bal),
      h_getAvailableBalance = Inr (Fin bal)\<rparr>"

definition long_position :: "symbol \<Rightarrow> rat \<Rightarrow> rat \<Rightarrow> rat \<Rightarrow> symbol \<times> position" where
  "long_position s sz mark pnl =
     (s, \<lparr>pos_symbol = Some s, pos_side = Long, pos_size = Fin sz, pos_markPrice = Fin mark,
          pos_unrealizedPnl = Fin pnl\<rparr>)"

text \<open>Scenario S6: three long positions of size 1 at mark price 100, with PnL -50, +30, -10.\<close>

definition S6_positions :: "(symbol \<times> position) list" where
  "S6_positions = [long_position ''A'' 1 100 (- 50), long_position ''B'' 1 100 30,
                   long_position ''C'' 1 100 (- 10)]"

text \<open>The hedge-controller venue of above, rejecting every order.\<close>

definition rejecting_holding_venue :: "(symbol \<times> position) list \<Rightarrow> rat \<Rightarrow> hedge_adapter" where
  "rejecting_holding_venue ps bal =
     (holding_venue ps bal)\<lparr>h_createOrder := (\<lambda>symbol sd quantity. Inl (AdapterError ''rejected''))\<rparr>"

text \<open>A BTCUSDT opportunity between venues X (long) and Y (short), both priced at 50000.\<close>

definition XY_opportunity :: opportunity where
  "XY_opportunity =
     \<lparr>op_symbol = ''BTCUSDT'', op_longExchange = ''X'', op_longPrice = Fin 50000,
      op_shortExchange = ''Y'', op_shortPrice = Fin 50000, op_spread = Fin 0,
      op_spreadRatio = Fin 0\<rparr>"

section \<open>Theorems\<close>

subsection \<open>Evaluating decimal arithmetic\<close>

lemma floor_rat_numeral_div [simp]:
  "\<lfloor>numeral a / numeral b :: rat\<rfloor> = numeral a div numeral b"
  by (metis floor_divide_of_int_eq of_int_numeral)

lemma floor_rat_one_div [simp]: "\<lfloor>1 / numeral b :: rat\<rfloor> = 1 div numeral b"
  by (metis floor_divide_of_int_eq of_int_1 of_int_numeral)

lemma ceiling_rat_numeral_div [simp]:
  "\<lceil>numeral a / numeral b :: rat\<rceil> = - (- numeral a div numeral b)"
  using ceiling_divide_eq_div [of "numeral a" "numeral b", where ?'a = rat] by simp

lemma ceiling_rat_one_div [simp]: "\<lceil>1 / numeral b :: rat\<rceil> = - (- 1 div numeral b)"
  using ceiling_divide_eq_div [of 1 "numeral b", where ?'a = rat] by simp

lemma floor_rat_neg_numeral_div [simp]:
  "\<lfloor>- (numeral a / numeral b) :: rat\<rfloor> = - numeral a div numeral b"
  by (metis divide_minus_left floor_divide_of_int_eq of_int_neg_numeral of_int_numeral)

lemma ceiling_rat_neg_numeral_div [simp]:
  "\<lceil>- (numeral a / numeral b) :: rat\<rceil> = - (numeral a div numeral b)"
  using ceiling_divide_eq_div [of "- numeral a" "numeral b", where ?'a = rat] by simp

lemma ndigits_numeral:
  "ndigits (numeral k) = (if numeral k < (10::nat) then 1 else Suc (ndigits (numeral k div 10)))"
  by (rule ndigits.simps)

lemma ndigits_small: "ndigits 0 = 1" "ndigits 1 = 1" "ndigits (Suc 0) = 1"
  by (simp_all add: ndigits.simps)

lemmas dec_eval =
  finalise_def dec_exponent_def ndigits_numeral ndigits_small trunc_at_def trunc_def pow10_def
  precision_def dec_gt_def dec_lte_def dec_eq_def dec_sub_def dec_min_def dec_gte_def

lemmas monitor_eval =
  checkAllExchanges_def FundingRateMonitor_def default_thresholds_def processRates_def
  processRate_def checkHedging_def checkArbitrageOpportunities_def findCommonSymbols_def
  checkSymbol_def collectRates_def findMaxRate_def findMinRate_def triggerArbitrageAlert_def
  executeHedge_def hedge_key_def openHedge_def promise_all2_def all2_def filling_venue_def
  rejecting_venue_def ExchangeAdapter_def

lemmas hc_eval =
  HedgeControls_def getAllPositions_def getTotalPortfolioValue_def calculateNetExposure_def
  netValue_def flattenPositions_def sort_pnl_def reduceExposure_def calculateRiskExposure_def
  updateVolatility_def estimateCurrentVolatility_def holding_venue_def long_position_def
  S6_positions_def rejecting_holding_venue_def XY_opportunity_def HedgeControls_executeHedge_def
  calculateHedgeSize_def

subsection \<open>Rounding\<close>

text \<open>
  What the rounding of the decimal model computes: \<open>dec_exponent\<close> is the exponent of the
  leading digit, \<open>trunc_at k\<close> cuts a non-negative value down to a multiple of
  \<open>10\<^sup>-\<^sup>k\<close>, and \<open>finalise\<close> keeps the 8 leading digits of a positive value and
  drops the rest; all three are symmetric about zero.
\<close>

lemma pow10_pos: "0 < pow10 k"
  by (simp add: pow10_def)

lemma ndigits_pos: "0 < ndigits n"
  by (subst ndigits.simps) simp

lemma ndigits_bounds: "0 < n \<Longrightarrow> 10 ^ (ndigits n - 1) \<le> n \<and> n < 10 ^ ndigits n"
proof (induction n rule: ndigits.induct)
  case (1 n)
  show ?case
  proof (cases "n < 10")
    case True
    then have "ndigits n = 1" by (subst ndigits.simps) simp
    with True "1.prems" show ?thesis by simp
  next
    case False
    let ?m = "n div 10"
    have m: "0 < ?m" using False by simp
    from "1.IH" [OF False m] have IH: "10 ^ (ndigits ?m - 1) \<le> ?m" "?m < 10 ^ ndigits ?m"
      by auto
    have nd: "ndigits n = Suc (ndigits ?m)"
      using False by (subst ndigits.simps) simp
    have p: "(10::nat) ^ ndigits ?m = 10 * 10 ^ (ndigits ?m - 1)"
      using ndigits_pos [of ?m] by (cases "ndigits ?m") auto
    have "10 * 10 ^ (ndigits ?m - 1) \<le> 10 * ?m" using IH(1) by simp
    also have "\<dots> \<le> n" by simp
    finally have lo: "10 ^ ndigits ?m \<le> n" by (simp add: p)
    have "n < 10 * (?m + 1)" by simp
    also have "\<dots> \<le> 10 * 10 ^ ndigits ?m" using IH(2) by simp
    finally have hi: "n < 10 ^ Suc (ndigits ?m)" by simp
    show ?thesis using lo hi by (simp add: nd)
  qed
qed

lemma pow10_neg:
  assumes "0 < d"
  shows "pow10 (- int d) = 1 / 10 ^ d" and "pow10 (- int d + 1) = 1 / 10 ^ (d - 1)"
proof -
  show "pow10 (- int d) = 1 / 10 ^ d"
    using assms by (simp add: pow10_def)
  obtain n where n: "d = Suc n"
    using assms by (cases d) auto
  have "- int d + 1 = - int n" by (simp add: n)
  then show "pow10 (- int d + 1) = 1 / 10 ^ (d - 1)"
    by (cases "n = 0") (simp_all add: pow10_def n)
qed

lemma dec_exponent_bounds:
  assumes "x \<noteq> 0"
  shows "pow10 (dec_exponent x) \<le> \<bar>x\<bar> \<and> \<bar>x\<bar> < pow10 (dec_exponent x + 1)"
proof (cases "1 \<le> \<bar>x\<bar>")
  case True
  let ?n = "nat \<lfloor>\<bar>x\<bar>\<rfloor>"
  have n: "0 < ?n" using True by simp
  have e: "dec_exponent x = int (ndigits ?n) - 1" using True by (simp add: dec_exponent_def)
  have e0: "0 \<le> dec_exponent x" using ndigits_pos [of ?n] by (simp add: e)
  have nat_e: "nat (dec_exponent x) = ndigits ?n - 1" by (simp add: e)
  have nat_e1: "nat (dec_exponent x + 1) = ndigits ?n" using ndigits_pos [of ?n] by (simp add: e)
  from ndigits_bounds [OF n] have b: "10 ^ (ndigits ?n - 1) \<le> ?n" "?n < 10 ^ ndigits ?n" by auto
  have fl: "rat_of_nat ?n \<le> \<bar>x\<bar>" "\<bar>x\<bar> < rat_of_nat ?n + 1"
    using True by (simp_all add: of_nat_nat) linarith+
  have lo: "10 ^ (ndigits ?n - 1) \<le> \<bar>x\<bar>"
    using order_trans [OF of_nat_mono [OF b(1)] fl(1)] by simp
  have "rat_of_nat (Suc ?n) \<le> rat_of_nat (10 ^ ndigits ?n)"
    using Suc_leI [OF b(2)] by (rule of_nat_mono)
  then have "1 + rat_of_nat ?n \<le> 10 ^ ndigits ?n"
    by (simp only: of_nat_Suc of_nat_power of_nat_numeral)
  then have hi: "\<bar>x\<bar> < 10 ^ ndigits ?n" using fl(2) by linarith
  show ?thesis
    using lo hi e0 by (simp add: pow10_def nat_e nat_e1)
next
  case False
  let ?y = "1 / \<bar>x\<bar>"
  let ?m = "nat \<lceil>?y\<rceil>"
  let ?d = "ndigits (?m - 1)"
  have x: "0 < \<bar>x\<bar>" "\<bar>x\<bar> < 1" using assms False by auto
  have y: "1 < ?y" using x by simp
  have c: "2 \<le> \<lceil>?y\<rceil>" using y by linarith
  have m1: "0 < ?m - 1" using c by simp
  have e: "dec_exponent x = - int ?d" using False by (simp add: dec_exponent_def)
  from ndigits_bounds [OF m1] have b: "10 ^ (?d - 1) \<le> ?m - 1" "?m - 1 < 10 ^ ?d" by auto
  have d: "0 < ?d" by (rule ndigits_pos)
  have cm: "rat_of_nat ?m = of_int \<lceil>?y\<rceil>" using c by simp
  have up: "?y \<le> rat_of_nat ?m" unfolding cm by linarith
  have dn: "rat_of_nat ?m - 1 < ?y" unfolding cm by linarith
  have "?m \<le> 10 ^ ?d" using b(2) by arith
  then have "rat_of_nat ?m \<le> rat_of_nat (10 ^ ?d)" by (rule of_nat_mono)
  then have m10: "rat_of_nat ?m \<le> 10 ^ ?d" by (simp only: of_nat_power of_nat_numeral)
  have yle: "?y \<le> 10 ^ ?d" using up m10 by (rule order_trans)
  have "rat_of_nat (10 ^ (?d - 1)) \<le> rat_of_nat (?m - 1)" using b(1) by (rule of_nat_mono)
  then have d10: "10 ^ (?d - 1) \<le> rat_of_nat (?m - 1)" by (simp only: of_nat_power of_nat_numeral)
  have "1 \<le> ?m" using m1 by arith
  then have "rat_of_nat (?m - 1) = rat_of_nat ?m - rat_of_nat 1" by (rule of_nat_diff)
  then have md: "rat_of_nat (?m - 1) = rat_of_nat ?m - 1" by (simp only: of_nat_1)
  have ygt: "10 ^ (?d - 1) < ?y" using d10 md dn by linarith
  have lo: "1 / 10 ^ ?d \<le> \<bar>x\<bar>"
    using yle x(1) by (simp add: field_simps)
  have hi: "\<bar>x\<bar> < 1 / 10 ^ (?d - 1)"
    using ygt x(1) by (simp add: field_simps)
  have p0: "pow10 (dec_exponent x) = 1 / 10 ^ ?d"
    unfolding e using d by (rule pow10_neg(1))
  have p1: "pow10 (dec_exponent x + 1) = 1 / 10 ^ (?d - 1)"
    unfolding e using d by (rule pow10_neg(2))
  show ?thesis using lo hi by (simp only: p0 p1 simp_thms)
qed

lemma trunc_at_bounds:
  assumes "0 \<le> x"
  shows "0 \<le> trunc_at k x \<and> trunc_at k x \<le> x \<and> x < trunc_at k x + 1 / pow10 k"
proof -
  let ?p = "pow10 k"
  have p: "0 < ?p" by (rule pow10_pos)
  have xp: "0 \<le> x * ?p" using assms p by simp
  have t: "trunc_at k x = of_int \<lfloor>x * ?p\<rfloor> / ?p"
    using xp by (simp add: trunc_at_def trunc_def)
  have f0: "0 \<le> \<lfloor>x * ?p\<rfloor>" using xp by simp
  have f1: "of_int \<lfloor>x * ?p\<rfloor> \<le> x * ?p" by simp
  have f2: "x * ?p < of_int \<lfloor>x * ?p\<rfloor> + 1" by linarith
  have a: "0 \<le> trunc_at k x" using f0 p by (simp add: t)
  have b: "trunc_at k x \<le> x" using f1 p by (simp add: t field_simps)
  have c: "x < trunc_at k x + 1 / ?p" using f2 p by (simp add: t field_simps)
  show ?thesis using a b c by simp
qed


lemma pow10_power_int: "pow10 k = power_int 10 k"
  by (simp add: pow10_def power_int_def power_one_over)

lemma pow10_add: "pow10 (a + b) = pow10 a * pow10 b"
  by (simp add: pow10_power_int power_int_add)

lemma pow10_numeral: "pow10 7 = 10 ^ 7" "pow10 8 = 10 ^ 8"
  by (simp_all add: pow10_def)

lemma trunc_minus: "trunc (- x) = - trunc x"
  by (auto simp: trunc_def ceiling_def)

lemma trunc_at_minus: "trunc_at k (- x) = - trunc_at k x"
  by (simp add: trunc_at_def trunc_minus)

lemma dec_exponent_minus: "dec_exponent (- x) = dec_exponent x"
  unfolding dec_exponent_def by (simp only: abs_minus_cancel)

lemma finalise_minus: "finalise (- x) = - finalise x"
  by (simp add: finalise_def dec_exponent_minus trunc_at_minus)

lemma finalise_significant_digits:
  assumes "0 < x"
  shows "\<exists>N::int. 10 ^ 7 \<le> N \<and> N < 10 ^ 8
           \<and> finalise x = of_int N * pow10 (dec_exponent x - 7)
           \<and> of_int N * pow10 (dec_exponent x - 7) \<le> x
           \<and> x < of_int (N + 1) * pow10 (dec_exponent x - 7)"
proof -
  let ?e = "dec_exponent x"
  let ?p = "pow10 (7 - ?e)"
  let ?N = "\<lfloor>x * ?p\<rfloor>"
  have p: "0 < ?p" by (rule pow10_pos)
  have inv: "pow10 (?e - 7) * ?p = 1"
    using pow10_add [of "?e - 7" "7 - ?e"] by (simp add: pow10_def)
  then have inv': "pow10 (?e - 7) = 1 / ?p"
    using p by (simp add: field_simps)
  have xp: "0 \<le> x * ?p" using assms p by simp
  have f: "finalise x = of_int ?N / ?p"
    using assms xp by (simp add: finalise_def precision_def trunc_at_def trunc_def)
  from dec_exponent_bounds [of x] assms
  have b: "pow10 ?e \<le> x" "x < pow10 (?e + 1)" by auto
  have "pow10 ?e * ?p = 10 ^ 7"
    using pow10_add [of ?e "7 - ?e"] by (simp add: pow10_numeral)
  then have lo: "10 ^ 7 \<le> x * ?p"
    using mult_right_mono [OF b(1), of ?p] p by simp
  have "pow10 (?e + 1) * ?p = 10 ^ 8"
    using pow10_add [of "?e + 1" "7 - ?e"] by (simp add: pow10_numeral)
  then have hi: "x * ?p < 10 ^ 8"
    using mult_strict_right_mono [OF b(2) p] by simp
  have N1: "10 ^ 7 \<le> ?N" using lo by (simp add: le_floor_iff)
  have N2: "?N < 10 ^ 8" using hi by (simp add: floor_less_iff)
  have le: "of_int ?N / ?p \<le> x"
    using p by (simp add: field_simps)
  have "x * ?p < of_int (?N + 1)" by linarith
  then have lt: "x < of_int (?N + 1) / ?p"
    using p by (simp add: field_simps)
  show ?thesis
    using N1 N2 f le lt by (intro exI [of _ ?N]) (simp add: inv')
qed

subsection \<open>Balance lookup\<close>

lemma asset_pred_truthy: "truthy (asset_pred cfg item)"
  by (simp add: asset_pred_def js_or_def)

lemma BinanceHedgeAdapter_getTotalBalance_first: "BinanceHedgeAdapter_getTotalBalance cfg (x # xs) = Inr (balance x)"
  by (simp add: BinanceHedgeAdapter_getTotalBalance_def asset_pred_truthy)

lemma BinanceHedgeAdapter_getAvailableBalance_first: "BinanceHedgeAdapter_getAvailableBalance cfg (x # xs) = Inr (availableBalance x)"
  by (simp add: BinanceHedgeAdapter_getAvailableBalance_def asset_pred_truthy)

lemma BinanceAdapter_getBalance_first:
  "BinanceAdapter_getBalance cfg (x # xs) = Inr \<lparr>total = balance x, available = availableBalance x\<rparr>"
  by (simp add: BinanceAdapter_getBalance_def asset_pred_truthy)

text \<open>
  Claim C9 says the balance returned is that of the configured quote asset whatever the
  order of the venue's answer. The code returns the entry listed first: with
  \<^verbatim>\<open>tradeAsset = 'USDT'\<close> and an answer listing BNB (5 total, 3 available) before USDT
  (1000 total, 900 available), all three lookups return the BNB figures, and swapping the
  two entries changes the result.
\<close>

theorem C9_balance_is_first_listed_asset:
  "BinanceHedgeAdapter_getTotalBalance \<lparr>tradeAsset = Some ''USDT''\<rparr>
     [\<lparr>asset = ''BNB'', balance = Fin 5, availableBalance = Fin 3\<rparr>,
      \<lparr>asset = ''USDT'', balance = Fin 1000, availableBalance = Fin 900\<rparr>] = Inr (Fin 5)
   \<and> BinanceHedgeAdapter_getAvailableBalance \<lparr>tradeAsset = Some ''USDT''\<rparr>
     [\<lparr>asset = ''BNB'', balance = Fin 5, availableBalance = Fin 3\<rparr>,
      \<lparr>asset = ''USDT'', balance = Fin 1000, availableBalance = Fin 900\<rparr>] = Inr (Fin 3)
   \<and> BinanceAdapter_getBalance \<lparr>tradeAsset = Some ''USDT''\<rparr>
     [\<lparr>asset = ''BNB'', balance = Fin 5, availableBalance = Fin 3\<rparr>,
      \<lparr>asset = ''USDT'', balance = Fin 1000, availableBalance = Fin 900\<rparr>]
       = Inr \<lparr>total = Fin 5, available = Fin 3\<rparr>
   \<and> BinanceHedgeAdapter_getTotalBalance \<lparr>tradeAsset = Some ''USDT''\<rparr>
     [\<lparr>asset = ''USDT'', balance = Fin 1000, availableBalance = Fin 900\<rparr>,
      \<lparr>asset = ''BNB'', balance = Fin 5, availableBalance = Fin 3\<rparr>] = Inr (Fin 1000)"
  by (simp add: BinanceHedgeAdapter_getTotalBalance_first BinanceHedgeAdapter_getAvailableBalance_first BinanceAdapter_getBalance_first)

subsection \<open>Objects\<close>

lemma map_of_obj_set: "map_of (obj_set k v m) k' = (if k' = k then Some v else map_of m k')"
  by (induction m) auto



subsection \<open>Processing observations\<close>


lemma processRate_history:
  "history (fst (processRate now exchange (st, tr, hc) ri))
     = history st @ [history_entry_of now exchange ri]"
  by (simp add: processRate_def Let_def split: prod.splits)




lemma foldl_processRate_history:
  "history (fst (foldl (processRate now exchange) acc rs))
     = history (fst acc) @ map (history_entry_of now exchange) rs"
proof (induction rs arbitrary: acc)
  case Nil
  then show ?case by simp
next
  case (Cons r rs)
  obtain st tr hc where acc: "acc = (st, tr, hc)" by (cases acc) auto
  show ?case
    by (simp add: acc Cons.IH processRate_history)
qed

lemma processRates_fst:
  "fst (processRates now exchange rs st) = fst (foldl (processRate now exchange) (st, [], False) rs)"
  by (simp add: processRates_def split: prod.splits)

lemma processRates_history:
  "history (fst (processRates now exchange rs st))
     = history st @ map (history_entry_of now exchange) rs"
  by (simp add: processRates_fst foldl_processRate_history)










text \<open>
  Claim C6 says the history buffer never holds more than the cap of 200 entries. The
  monitor has no cap: 201 observations ingested by a fresh monitor leave 201 entries.
\<close>

theorem C6_history_exceeds_cap:
  "\<not> length (history (fst (processRates 0 ''binance''
        (replicate 201 \<lparr>ri_symbol = ''BTCUSDT'', ri_rate = Fin 0, ri_nextTime = 0\<rparr>)
        (FundingRateMonitor None False ExchangeAdapter ExchangeAdapter ExchangeAdapter)))) \<le> 200"
  by (simp add: processRates_history FundingRateMonitor_def)

text \<open>
  Claim C6 as amended: every ingested observation appends exactly one entry to the
  history, in order, and nothing is ever evicted, so a batch of \<open>n\<close> observations grows
  the buffer by \<open>n\<close>.
\<close>

theorem C6_history_append_only:
  "history (fst (processRates now exchange rs st))
     = history st @ map (history_entry_of now exchange) rs
   \<and> length (history (fst (processRates now exchange rs st))) = length (history st) + length rs"
  by (simp add: processRates_history)

subsection \<open>Opening a hedge from the monitor\<close>

lemma executeHedge_marks_key:
  "status_truthy (map_of (positionStatus (fst (executeHedge now st symbol l s))) (hedge_key symbol l s))"
  by (auto simp: executeHedge_def Let_def map_of_obj_set split: prod.splits sum.splits)

lemma executeHedge_present:
  "status_truthy (map_of (positionStatus st) (hedge_key symbol l s)) \<Longrightarrow>
   executeHedge now st symbol l s = (st, [])"
  by (simp add: executeHedge_def)

text \<open>
  Claim C4. An open attempt on a key whose stored value is truthy (the string
  \<^verbatim>\<open>'opening'\<close>, the record of an opened hedge, and also \<^verbatim>\<open>'failed'\<close>) returns at
  once: the trace is empty, so there is no balance or price query, no order and no event,
  and the monitor, with the stored record, is unchanged. After any first open the key is
  present, so an immediate second open of the same opportunity does nothing, and
  re-emitting the opportunity through \<^verbatim>\<open>_triggerArbitrageAlert\<close> emits the alert again
  and nothing else.
\<close>

theorem C4_open_is_idempotent:
  "(status_truthy (map_of (positionStatus st) (hedge_key symbol l s)) \<longrightarrow>
      executeHedge now st symbol l s = (st, []))
   \<and> executeHedge now' (fst (executeHedge now st symbol l s)) symbol l s
       = (fst (executeHedge now st symbol l s), [])
   \<and> triggerArbitrageAlert now' (fst (triggerArbitrageAlert now st symbol l lr s sr)) symbol l lr s sr
       = (fst (triggerArbitrageAlert now st symbol l lr s sr),
          [Emit_arbitrage \<lparr>a_symbol = symbol, a_longExchange = l, a_longRate = lr,
                           a_shortExchange = s, a_shortRate = sr, a_spread = dec_sub lr sr\<rparr>])"
proof -
  have 1: "executeHedge now' (fst (executeHedge now st symbol l s)) symbol l s
             = (fst (executeHedge now st symbol l s), [])"
    by (rule executeHedge_present) (rule executeHedge_marks_key)
  have 2: "triggerArbitrageAlert now' (fst (triggerArbitrageAlert now st symbol l lr s sr)) symbol l lr s sr
       = (fst (triggerArbitrageAlert now st symbol l lr s sr),
          [Emit_arbitrage \<lparr>a_symbol = symbol, a_longExchange = l, a_longRate = lr,
                           a_shortExchange = s, a_shortRate = sr, a_spread = dec_sub lr sr\<rparr>])"
  proof (cases "config_autoHedge st")
    case False
    then show ?thesis by (simp add: triggerArbitrageAlert_def)
  next
    case True
    have auto: "config_autoHedge (fst (executeHedge now st symbol l s))"
      using True by (auto simp: executeHedge_def Let_def split: prod.splits sum.splits)
    have fst_eq: "fst (triggerArbitrageAlert now st symbol l lr s sr) = fst (executeHedge now st symbol l s)"
      using True by (simp add: triggerArbitrageAlert_def split: prod.splits)
    show ?thesis
      unfolding fst_eq using auto 1 by (simp add: triggerArbitrageAlert_def)
  qed
  show ?thesis
    using 1 2 by (simp add: executeHedge_present)
qed

text \<open>
  Scenario S3: after the S2 open on two filling venues, where binance is long and bybit
  short, the key holds the opened record and a second open leaves everything as it is.
\<close>

theorem C4_open_is_idempotent_witness:
  "status_truthy (map_of (positionStatus
       (fst (executeHedge 0 (FundingRateMonitor None True (filling_venue (- 1 / 1000) 1000 50000)
               (filling_venue (15 / 10000) 1000 50000) ExchangeAdapter) ''BTCUSDT'' ''binance'' ''bybit'')))
       (hedge_key ''BTCUSDT'' ''binance'' ''bybit''))
   \<and> executeHedge 1
       (fst (executeHedge 0 (FundingRateMonitor None True (filling_venue (- 1 / 1000) 1000 50000)
               (filling_venue (15 / 10000) 1000 50000) ExchangeAdapter) ''BTCUSDT'' ''binance'' ''bybit''))
       ''BTCUSDT'' ''binance'' ''bybit''
     = (fst (executeHedge 0 (FundingRateMonitor None True (filling_venue (- 1 / 1000) 1000 50000)
               (filling_venue (15 / 10000) 1000 50000) ExchangeAdapter) ''BTCUSDT'' ''binance'' ''bybit''), [])"
  using C4_open_is_idempotent [of
      "fst (executeHedge 0 (FundingRateMonitor None True (filling_venue (- 1 / 1000) 1000 50000)
               (filling_venue (15 / 10000) 1000 50000) ExchangeAdapter) ''BTCUSDT'' ''binance'' ''bybit'')"
      "''BTCUSDT''" "''binance''" "''bybit''" 1]
    executeHedge_marks_key [of 0 "FundingRateMonitor None True (filling_venue (- 1 / 1000) 1000 50000)
               (filling_venue (15 / 10000) 1000 50000) ExchangeAdapter" "''BTCUSDT''" "''binance''" "''bybit''"]
  by blast

subsection \<open>The hedge controller\<close>

text \<open>
  Claim C10. The constructor builds an object without an \<^verbatim>\<open>activeHedges\<close> table, and
  neither \<^verbatim>\<open>startHedging\<close>, \<^verbatim>\<open>stopHedging\<close> nor a risk tick creates one. On every
  controller without the table, whatever its flags and other fields,
  \<^verbatim>\<open>_executeHedge\<close> rejects with a TypeError for every opportunity, with an empty trace
  (no balance query, no order) and the controller unchanged, so still without a table;
  \<^verbatim>\<open>_monitorActiveHedges\<close> rejects with a TypeError whatever its callback;
  \<^verbatim>\<open>getStatus\<close> throws a TypeError. On a controller where a table \<open>hs\<close> has been put
  from outside, none of the three fails that way.
\<close>

theorem C10_activeHedges_never_initialised:
  "hc_activeHedges (HedgeControls maxExp exs) = None
   \<and> hc_activeHedges (fst (startHedging st)) = hc_activeHedges st
   \<and> hc_activeHedges (fst (stopHedging st)) = hc_activeHedges st
   \<and> hc_activeHedges (fst (calculateRiskExposure st)) = hc_activeHedges st
   \<and> (hc_activeHedges st = None \<longrightarrow>
         HedgeControls_executeHedge now st opp = (st, [], Inl TypeError)
         \<and> monitorActiveHedges callback st = (st, [], Inl TypeError)
         \<and> getStatus st = Inl TypeError)
   \<and> (hc_activeHedges st = Some hs \<longrightarrow>
         snd (snd (HedgeControls_executeHedge now st opp)) = Inr ()
         \<and> snd (snd (monitorActiveHedges callback st)) = Inr ()
         \<and> getStatus st \<noteq> Inl TypeError)"
proof -
  have risk: "hc_activeHedges (fst (calculateRiskExposure st)) = hc_activeHedges st"
    by (auto simp: calculateRiskExposure_def updateVolatility_def Let_def
          split: prod.splits sum.splits)
  have none: "hc_activeHedges st = None \<longrightarrow>
         HedgeControls_executeHedge now st opp = (st, [], Inl TypeError)
         \<and> monitorActiveHedges callback st = (st, [], Inl TypeError)
         \<and> getStatus st = Inl TypeError"
    by (simp add: HedgeControls_executeHedge_def monitorActiveHedges_def getStatus_def Let_def)
  have some: "hc_activeHedges st = Some hs \<longrightarrow>
         snd (snd (HedgeControls_executeHedge now st opp)) = Inr ()
         \<and> snd (snd (monitorActiveHedges callback st)) = Inr ()
         \<and> getStatus st \<noteq> Inl TypeError"
    by (simp add: HedgeControls_executeHedge_def monitorActiveHedges_def getStatus_def Let_def
          split: prod.splits sum.splits)
  show ?thesis
    using risk none some by (simp add: HedgeControls_def startHedging_def stopHedging_def)
qed

text \<open>
  A controller over venues X and Y on which \<^verbatim>\<open>startHedging()\<close> was called: hedging is
  active and there is no table, so the opportunity between X and Y is rejected before any
  query, monitoring is rejected and the status cannot be read, also after a risk tick.
  With an empty table put there from outside, the status can be read.
\<close>

theorem C10_activeHedges_never_initialised_witness:
  "hc_isHedgingActive
       (fst (startHedging (HedgeControls None [(''X'', holding_venue [] 1000), (''Y'', holding_venue [] 1000)])))
   \<and> hc_activeHedges
       (fst (startHedging (HedgeControls None [(''X'', holding_venue [] 1000), (''Y'', holding_venue [] 1000)])))
     = None
   \<and> HedgeControls_executeHedge 0
       (fst (startHedging (HedgeControls None [(''X'', holding_venue [] 1000), (''Y'', holding_venue [] 1000)])))
       XY_opportunity
     = (fst (startHedging (HedgeControls None [(''X'', holding_venue [] 1000), (''Y'', holding_venue [] 1000)])),
        [], Inl TypeError)
   \<and> monitorActiveHedges (\<lambda>entry acc. acc)
       (fst (startHedging (HedgeControls None [(''X'', holding_venue [] 1000), (''Y'', holding_venue [] 1000)])))
     = (fst (startHedging (HedgeControls None [(''X'', holding_venue [] 1000), (''Y'', holding_venue [] 1000)])),
        [], Inl TypeError)
   \<and> getStatus
       (fst (startHedging (HedgeControls None [(''X'', holding_venue [] 1000), (''Y'', holding_venue [] 1000)])))
     = Inl TypeError
   \<and> getStatus (fst (calculateRiskExposure
       (fst (startHedging (HedgeControls None [(''X'', holding_venue [] 1000), (''Y'', holding_venue [] 1000)])))))
     = Inl TypeError
   \<and> getStatus
       ((fst (startHedging (HedgeControls None [(''X'', holding_venue [] 1000), (''Y'', holding_venue [] 1000)])))
          \<lparr>hc_activeHedges := Some []\<rparr>)
     \<noteq> Inl TypeError"
proof -
  let ?k = "fst (startHedging (HedgeControls None
                  [(''X'', holding_venue [] 1000), (''Y'', holding_venue [] 1000)]))"
  have act: "hc_isHedgingActive ?k"
    by (simp add: startHedging_def)
  have tab: "hc_activeHedges ?k = None"
    by (simp add: startHedging_def HedgeControls_def)
  have tab': "hc_activeHedges (fst (calculateRiskExposure ?k)) = None"
    using C10_activeHedges_never_initialised [of None "[]" ?k] tab by simp
  have tab'': "hc_activeHedges (?k\<lparr>hc_activeHedges := Some []\<rparr>) = Some []"
    by simp
  show ?thesis
    using C10_activeHedges_never_initialised
            [of None "[]" ?k 0 XY_opportunity "\<lambda>entry acc. acc" "[]"]
          C10_activeHedges_never_initialised
            [of None "[]" "fst (calculateRiskExposure ?k)" 0 XY_opportunity "\<lambda>entry acc. acc" "[]"]
          C10_activeHedges_never_initialised
            [of None "[]" "?k\<lparr>hc_activeHedges := Some []\<rparr>" 0 XY_opportunity
                "\<lambda>entry acc. acc" "[]"]
          act tab tab' tab''
    by blast
qed

subsection \<open>The arbitrage scan\<close>

text \<open>
  Claim C1 says the scan designates the minimum-rate venue as the long venue and the
  maximum-rate venue as the short one, and that the auto-hedge buys on the former and sells
  on the latter. Scenario S2 on the code: binance reports -0.001 and bybit +0.0015 for
  BTCUSDT, both hold 1000 with mark price 50000, auto-hedge is on. The spread 0.0025 exceeds
  0.002; the event names bybit, the maximum-rate venue, as \<^verbatim>\<open>longExchange\<close> and binance
  as \<^verbatim>\<open>shortExchange\<close>, and the hedge buys 0.01 on bybit and sells 0.01 on binance.
  (\<^verbatim>\<open>_checkArbitrageOpportunities\<close> passes \<^verbatim>\<open>maxExchange, maxRate, minExchange,
  minRate\<close> to parameters named \<^verbatim>\<open>longExchange, longRate, shortExchange,
  shortRate\<close>.)
\<close>

theorem C1_scan_longs_the_maximum_rate_venue:
  "snd (checkAllExchanges 0 (FundingRateMonitor None True (filling_venue (- 1 / 1000) 1000 50000)
          (filling_venue (15 / 10000) 1000 50000) ExchangeAdapter))
   = [Call_fetchFundingRates ''binance'', Call_fetchFundingRates ''bybit'',
      Call_fetchFundingRates ''okx'',
      Emit_alert Warning ''binance'' ''BTCUSDT'' (Fin (- (1 / 1000))),
      Emit_alert Critical ''bybit'' ''BTCUSDT'' (Fin (3 / 2000)),
      Emit_arbitrage
        \<lparr>a_symbol = ''BTCUSDT'', a_longExchange = ''bybit'', a_longRate = Fin (3 / 2000),
         a_shortExchange = ''binance'', a_shortRate = Fin (- (1 / 1000)),
         a_spread = Fin (1 / 400)\<rparr>,
      Call_getBalance ''bybit'', Call_getBalance ''binance'',
      Call_getPrice ''bybit'' ''BTCUSDT'', Call_getPrice ''binance'' ''BTCUSDT'',
      Call_createOrder ''bybit'' ''BTCUSDT'' Buy (Fin (1 / 100)),
      Call_createOrder ''binance'' ''BTCUSDT'' Sell (Fin (1 / 100))]"
  by (simp add: monitor_eval dec_eval Let_def)

subsection \<open>The risk tick and de-risking\<close>

text \<open>
  Claim C3 says the exposure ratio is the net position value divided by the awaited total
  balance, 0 when the total is 0. In the code \<^verbatim>\<open>_calculateNetExposure\<close> divides by the
  promise \<^verbatim>\<open>_getTotalPortfolioValue()\<close> returns, so for every controller and every set
  of positions it throws after the balance calls were started: no ratio is computed, the
  risk tick leaves the controller as it was (\<^verbatim>\<open>exposure\<close> is never assigned), never
  emits \<^verbatim>\<open>riskExceeded\<close>, and ends by emitting an error.
\<close>

theorem C3_exposure_divides_by_a_promise:
  "calculateNetExposure st positions
     = (map (\<lambda>(name, exchange). Call_getTotalBalance name) (hc_exchanges st), Inl DecimalError)
   \<and> fst (calculateRiskExposure st) = st
   \<and> Emit_riskExceeded x \<notin> set (snd (calculateRiskExposure st))
   \<and> (\<exists>e. last (snd (calculateRiskExposure st)) = Emit_error e)"
  by (auto simp: calculateNetExposure_def getTotalPortfolioValue_def calculateRiskExposure_def
        getAllPositions_def Let_def split: prod.splits sum.splits)

text \<open>
  One venue X with total balance 1000 and one long position of size 5 at mark price 100:
  the claim's ratio is 0.5, above the ceiling 0.1. The tick asks for the positions and the
  balance and emits the error.
\<close>

theorem C3_exposure_divides_by_a_promise_witness:
  "calculateNetExposure
       (HedgeControls None [(''X'', holding_venue [long_position ''BTCUSDT'' 5 100 0] 1000)])
       [(''X'', [long_position ''BTCUSDT'' 5 100 0])]
     = ([Call_getTotalBalance ''X''], Inl DecimalError)
   \<and> calculateRiskExposure
       (HedgeControls None [(''X'', holding_venue [long_position ''BTCUSDT'' 5 100 0] 1000)])
     = (HedgeControls None [(''X'', holding_venue [long_position ''BTCUSDT'' 5 100 0] 1000)],
        [Call_getPositions ''X'', Call_getTotalBalance ''X'', Emit_error DecimalError])"
  using C3_exposure_divides_by_a_promise
    [of "HedgeControls None [(''X'', holding_venue [long_position ''BTCUSDT'' 5 100 0] 1000)]"
        "[(''X'', [long_position ''BTCUSDT'' 5 100 0])]"]
  by (simp add: hc_eval)

text \<open>
  Claim C7 describes which positions a de-risk invocation closes and in what order. In the
  code \<^verbatim>\<open>_reduceExposure\<close> multiplies by the same un-awaited promise before it reaches
  \<^verbatim>\<open>_closePositionsUntilTarget\<close>: for every controller the trace of a de-risk invocation
  contains no close at all; it is empty under emergency stop and otherwise ends with the
  error event.
\<close>

theorem C7_derisk_closes_nothing:
  "Call_closePosition v sy sd q \<notin> set (reduceExposure st)
   \<and> (hc_emergencyStop st \<longrightarrow> reduceExposure st = [])
   \<and> (\<not> hc_emergencyStop st \<longrightarrow> (\<exists>e. last (reduceExposure st) = Emit_error (ReduceFailed e)))"
  by (auto simp: reduceExposure_def getTotalPortfolioValue_def getAllPositions_def Let_def
        split: prod.splits sum.splits)

text \<open>
  Scenario S6 with a recorded exposure of 0.3 on a portfolio of 1000: the positions and the
  balance are asked for, then the error is emitted; position A is not closed.
\<close>

theorem C7_derisk_closes_nothing_witness:
  "reduceExposure ((HedgeControls None [(''X'', holding_venue S6_positions 1000)])
                     \<lparr>hc_exposure := Fin (3 / 10)\<rparr>)
     = [Call_getPositions ''X'', Call_getTotalBalance ''X'', Emit_error (ReduceFailed DecimalError)]
   \<and> Call_closePosition ''X'' (Some ''A'') Sell (Fin 1)
       \<notin> set (reduceExposure ((HedgeControls None [(''X'', holding_venue S6_positions 1000)])
                                 \<lparr>hc_exposure := Fin (3 / 10)\<rparr>))"
  using C7_derisk_closes_nothing
    [of "''X''" "Some ''A''" Sell "Fin 1"
        "(HedgeControls None [(''X'', holding_venue S6_positions 1000)])\<lparr>hc_exposure := Fin (3 / 10)\<rparr>"]
  by (simp add: hc_eval)

text \<open>
  What the unreachable part would do on scenario S6: the candidates are sorted A, C, B, and
  with 220 to reduce the closes are A and C in full and 0.2 of B.
\<close>

lemma S6_sorted_order:
  "map fp_symbol (sort_pnl (filter (\<lambda>p. fp_side p = Long) (flattenPositions [(''X'', S6_positions)])))
     = [Some ''A'', Some ''C'', Some ''B'']"
  by (simp add: hc_eval)

lemma S6_closes_if_reached:
  "closePositionsUntilTarget [(''X'', holding_venue S6_positions 1000)]
      (sort_pnl (filter (\<lambda>p. fp_side p = Long) (flattenPositions [(''X'', S6_positions)])))
      (Fin 220)
     = [Call_closePosition ''X'' (Some ''A'') Sell (Fin 1),
        Call_closePosition ''X'' (Some ''C'') Sell (Fin 1),
        Call_closePosition ''X'' (Some ''B'') Sell (Fin (1 / 5))]"
  by (simp add: hc_eval dec_eval Let_def)

subsection \<open>Sizing and partial fills\<close>

lemma obj_set_twice: "obj_set k v (obj_set k w m) = obj_set k v m"
  by (induction m) auto

lemma dec_min_Fin: "dec_min (Fin x) (Fin y) = Fin (min x y)"
  by (auto simp: dec_min_def dec_gt_def min_def)

lemma dec_lte_Fin: "dec_lte (Fin x) (Fin y) = (x \<le> y)"
  by (auto simp: dec_lte_def dec_eq_def)

text \<open>The \<^verbatim>\<open>try\<close> block of the monitor's open, once both venues report finite balances.\<close>

lemma openHedge_trace:
  assumes "map_of exs l = Some la" "map_of exs s = Some sa"
      and "getBalance la = Inr lb" "getBalance sa = Inr sb"
      and "available lb = Fin x" "available sb = Fin y"
  shows "openHedge now exs symbol l s =
    (let size_usd = trunc_at 8 (finalise (min x y * (1 / 2))) in
     if size_usd \<le> 0 then ([Call_getBalance l, Call_getBalance s], Inl InsufficientFunds)
     else (case all2 (getPrice la symbol) (getPrice sa symbol) of
        Inl e \<Rightarrow> ([Call_getBalance l, Call_getBalance s,
                   Call_getPrice l symbol, Call_getPrice s symbol], Inl e)
      | Inr (lp, sp) \<Rightarrow>
         let longQty = toDecimalPlaces 8 (dec_div (Fin size_usd) lp);
             shortQty = toDecimalPlaces 8 (dec_div (Fin size_usd) sp)
         in ([Call_getBalance l, Call_getBalance s, Call_getPrice l symbol, Call_getPrice s symbol,
              Call_createOrder l symbol Buy longQty, Call_createOrder s symbol Sell shortQty],
             (case all2 (createOrder la symbol Buy longQty) (createOrder sa symbol Sell shortQty) of
                Inl e \<Rightarrow> Inl e
              | Inr (lo, so) \<Rightarrow> Inr \<lparr>hp_status = ''opened'', hp_longExchange = l,
                                  hp_longOrder = lo, hp_shortExchange = s,
                                  hp_shortOrder = so, hp_openedAt = now\<rparr>))))"
  using assms
  by (simp add: openHedge_def promise_all2_def all2_def Let_def dec_min_Fin dec_lte_Fin
        split: sum.splits prod.splits)

lemma HedgeControls_partial_fill:
  assumes tab: "hc_activeHedges hst = Some hs"
      and new: "map_of hs (hedge_key (op_symbol opp) (op_longExchange opp) (op_shortExchange opp)) = None"
      and ex: "map_of (hc_exchanges hst) (op_longExchange opp) = Some hla"
              "map_of (hc_exchanges hst) (op_shortExchange opp) = Some hsa"
      and bal: "h_getAvailableBalance hla = Inr lbal" "h_getAvailableBalance hsa = Inr sbal"
      and sz: "sz = toDecimalPlaces 8 (dec_mul (dec_min (dec_div lbal (op_longPrice opp))
                                                  (dec_div sbal (op_shortPrice opp))) (Fin (1 / 10)))"
      and partial: "isl (h_createOrder hla (op_symbol opp) Buy sz)
                      \<noteq> isl (h_createOrder hsa (op_symbol opp) Sell sz)"
  shows "\<exists>e. HedgeControls_executeHedge now hst opp
           = (hst\<lparr>hc_activeHedges := Some (obj_set
                    (hedge_key (op_symbol opp) (op_longExchange opp) (op_shortExchange opp))
                    \<lparr>ah_opportunity = opp, ah_status = ''failed'', ah_longOrder = None,
                     ah_shortOrder = None, ah_size = None, ah_entryTime = None\<rparr> hs)\<rparr>,
              [Call_getAvailableBalance (op_longExchange opp),
               Call_getAvailableBalance (op_shortExchange opp),
               Call_createOrder (op_longExchange opp) (op_symbol opp) Buy sz,
               Call_createOrder (op_shortExchange opp) (op_symbol opp) Sell sz,
               Emit_hedgeFailed
                 (hedge_key (op_symbol opp) (op_longExchange opp) (op_shortExchange opp)) e],
              Inr ())"
proof -
  have size: "calculateHedgeSize (hc_exchanges hst) opp
          = ([Call_getAvailableBalance (op_longExchange opp),
              Call_getAvailableBalance (op_shortExchange opp)], Inr sz)"
    by (simp add: calculateHedgeSize_def promise_all2_def all2_def ex bal sz Let_def)
  have "\<exists>e. all2 (h_createOrder hla (op_symbol opp) Buy sz)
                  (h_createOrder hsa (op_symbol opp) Sell sz) = Inl e"
    using partial by (auto simp: all2_def split: sum.splits)
  then obtain e where e: "all2 (h_createOrder hla (op_symbol opp) Buy sz)
                               (h_createOrder hsa (op_symbol opp) Sell sz) = Inl e"
    by blast
  show ?thesis
    by (rule exI [of _ e])
       (simp add: HedgeControls_executeHedge_def Let_def tab new size promise_all2_def ex e
          obj_set_twice)
qed

text \<open>
  Claim C2 says that when exactly one leg of an open fails, the successful leg is closed
  again (with up to three retries) and a failure event flagged as a partial fill is
  emitted. Scenario S4 on the monitor: binance fills the buy of 0.01, bybit rejects the
  sell. The trace ends with the two order submissions and the key is marked
  \<^verbatim>\<open>'failed'\<close>: no close order is issued on binance and no event is emitted. On the hedge
  controller, given a table, the same scenario between X and Y ends with
  \<^verbatim>\<open>hedgeFailed\<close> carrying the key and the error, and no close order.
\<close>

theorem C2_partial_fill_is_not_reconciled:
  "executeHedge 0 (FundingRateMonitor None True (filling_venue (- 1 / 1000) 1000 50000)
          (rejecting_venue (15 / 10000) 1000 50000) ExchangeAdapter) ''BTCUSDT'' ''binance'' ''bybit''
     = ((FundingRateMonitor None True (filling_venue (- 1 / 1000) 1000 50000)
          (rejecting_venue (15 / 10000) 1000 50000) ExchangeAdapter)
          \<lparr>positionStatus := [(''BTCUSDT:binance:bybit'', Status_String ''failed'')]\<rparr>,
        [Call_getBalance ''binance'', Call_getBalance ''bybit'',
         Call_getPrice ''binance'' ''BTCUSDT'', Call_getPrice ''bybit'' ''BTCUSDT'',
         Call_createOrder ''binance'' ''BTCUSDT'' Buy (Fin (1 / 100)),
         Call_createOrder ''bybit'' ''BTCUSDT'' Sell (Fin (1 / 100))])
   \<and> fst (snd (HedgeControls_executeHedge 0
        ((HedgeControls None [(''X'', holding_venue [] 1000), (''Y'', rejecting_holding_venue [] 1000)])
           \<lparr>hc_activeHedges := Some []\<rparr>) XY_opportunity))
     = [Call_getAvailableBalance ''X'', Call_getAvailableBalance ''Y'',
        Call_createOrder ''X'' ''BTCUSDT'' Buy (Fin (2 / 1000)),
        Call_createOrder ''Y'' ''BTCUSDT'' Sell (Fin (2 / 1000)),
        Emit_hedgeFailed ''BTCUSDT:X:Y'' (AdapterError ''rejected'')]"
  by (simp add: monitor_eval hc_eval dec_eval Let_def)

text \<open>
  Claim C2 as amended. Monitor: when both venues are configured, the key is free, both
  balances are finite and give a positive size, both prices are returned and exactly one
  of the two order submissions fails, the open makes the two balance queries, the two
  price queries and the two submissions and nothing more, and leaves the key marked
  \<^verbatim>\<open>'failed'\<close>; in particular it never issues a close. Hedge controller: with a table
  present, the key free, both venues configured and both balances returned, an open in
  which exactly one submission fails marks the entry \<^verbatim>\<open>'failed'\<close> and emits
  \<^verbatim>\<open>hedgeFailed\<close> with the key and the error, after the two balance queries and the
  two submissions; it issues no close either.
\<close>

theorem C2_partial_fill_marks_failed:
  assumes ex: "map_of (exchanges st) l = Some la" "map_of (exchanges st) s = Some sa"
      and new: "\<not> status_truthy (map_of (positionStatus st) (hedge_key symbol l s))"
      and bal: "getBalance la = Inr lb" "getBalance sa = Inr sb"
               "available lb = Fin x" "available sb = Fin y"
      and size: "0 < trunc_at 8 (finalise (min x y * (1 / 2)))"
      and price: "getPrice la symbol = Inr lp" "getPrice sa symbol = Inr sp"
      and qty: "lq = toDecimalPlaces 8 (dec_div (Fin (trunc_at 8 (finalise (min x y * (1 / 2))))) lp)"
               "sq = toDecimalPlaces 8 (dec_div (Fin (trunc_at 8 (finalise (min x y * (1 / 2))))) sp)"
      and partial: "isl (createOrder la symbol Buy lq) \<noteq> isl (createOrder sa symbol Sell sq)"
      and htab: "hc_activeHedges hst = Some hs"
      and hnew: "map_of hs (hedge_key (op_symbol opp) (op_longExchange opp) (op_shortExchange opp)) = None"
      and hex: "map_of (hc_exchanges hst) (op_longExchange opp) = Some hla"
               "map_of (hc_exchanges hst) (op_shortExchange opp) = Some hsa"
      and hbal: "h_getAvailableBalance hla = Inr lbal" "h_getAvailableBalance hsa = Inr sbal"
      and hsz: "sz = toDecimalPlaces 8 (dec_mul (dec_min (dec_div lbal (op_longPrice opp))
                                                   (dec_div sbal (op_shortPrice opp))) (Fin (1 / 10)))"
      and hpartial: "isl (h_createOrder hla (op_symbol opp) Buy sz)
                       \<noteq> isl (h_createOrder hsa (op_symbol opp) Sell sz)"
  shows "snd (executeHedge now st symbol l s)
           = [Call_getBalance l, Call_getBalance s, Call_getPrice l symbol, Call_getPrice s symbol,
              Call_createOrder l symbol Buy lq, Call_createOrder s symbol Sell sq]
         \<and> map_of (positionStatus (fst (executeHedge now st symbol l s))) (hedge_key symbol l s)
           = Some (Status_String ''failed'')
         \<and> Call_closePosition v sy sd q \<notin> set (snd (executeHedge now st symbol l s))
         \<and> (\<exists>e. HedgeControls_executeHedge now hst opp
                = (hst\<lparr>hc_activeHedges := Some (obj_set
                         (hedge_key (op_symbol opp) (op_longExchange opp) (op_shortExchange opp))
                         \<lparr>ah_opportunity = opp, ah_status = ''failed'', ah_longOrder = None,
                          ah_shortOrder = None, ah_size = None, ah_entryTime = None\<rparr> hs)\<rparr>,
                   [Call_getAvailableBalance (op_longExchange opp),
                    Call_getAvailableBalance (op_shortExchange opp),
                    Call_createOrder (op_longExchange opp) (op_symbol opp) Buy sz,
                    Call_createOrder (op_shortExchange opp) (op_symbol opp) Sell sz,
                    Emit_hedgeFailed
                      (hedge_key (op_symbol opp) (op_longExchange opp) (op_shortExchange opp)) e],
                   Inr ()))
         \<and> Call_closePosition v sy sd q \<notin> set (fst (snd (HedgeControls_executeHedge now hst opp)))"
proof -
  have oh: "openHedge now (exchanges st) symbol l s
          = ([Call_getBalance l, Call_getBalance s, Call_getPrice l symbol, Call_getPrice s symbol,
              Call_createOrder l symbol Buy lq, Call_createOrder s symbol Sell sq],
             (case all2 (createOrder la symbol Buy lq) (createOrder sa symbol Sell sq) of
                Inl e \<Rightarrow> Inl e
              | Inr (lo, so) \<Rightarrow> Inr \<lparr>hp_status = ''opened'', hp_longExchange = l,
                                  hp_longOrder = lo, hp_shortExchange = s,
                                  hp_shortOrder = so, hp_openedAt = now\<rparr>))"
    using size by (simp add: openHedge_trace [OF ex bal] price all2_def Let_def qty)
  have "\<exists>e. all2 (createOrder la symbol Buy lq) (createOrder sa symbol Sell sq) = Inl e"
    using partial by (auto simp: all2_def split: sum.splits)
  then obtain e where e: "all2 (createOrder la symbol Buy lq) (createOrder sa symbol Sell sq) = Inl e"
    by blast
  have mon: "snd (executeHedge now st symbol l s)
           = [Call_getBalance l, Call_getBalance s, Call_getPrice l symbol, Call_getPrice s symbol,
              Call_createOrder l symbol Buy lq, Call_createOrder s symbol Sell sq]
         \<and> map_of (positionStatus (fst (executeHedge now st symbol l s))) (hedge_key symbol l s)
           = Some (Status_String ''failed'')"
    using new by (simp add: executeHedge_def Let_def oh e map_of_obj_set)
  have hc: "\<exists>e. HedgeControls_executeHedge now hst opp
                = (hst\<lparr>hc_activeHedges := Some (obj_set
                         (hedge_key (op_symbol opp) (op_longExchange opp) (op_shortExchange opp))
                         \<lparr>ah_opportunity = opp, ah_status = ''failed'', ah_longOrder = None,
                          ah_shortOrder = None, ah_size = None, ah_entryTime = None\<rparr> hs)\<rparr>,
                   [Call_getAvailableBalance (op_longExchange opp),
                    Call_getAvailableBalance (op_shortExchange opp),
                    Call_createOrder (op_longExchange opp) (op_symbol opp) Buy sz,
                    Call_createOrder (op_shortExchange opp) (op_symbol opp) Sell sz,
                    Emit_hedgeFailed
                      (hedge_key (op_symbol opp) (op_longExchange opp) (op_shortExchange opp)) e],
                   Inr ())"
    by (rule HedgeControls_partial_fill [OF htab hnew hex hbal hsz hpartial])
  from hc obtain e' where hc': "fst (snd (HedgeControls_executeHedge now hst opp))
       = [Call_getAvailableBalance (op_longExchange opp),
          Call_getAvailableBalance (op_shortExchange opp),
          Call_createOrder (op_longExchange opp) (op_symbol opp) Buy sz,
          Call_createOrder (op_shortExchange opp) (op_symbol opp) Sell sz,
          Emit_hedgeFailed
            (hedge_key (op_symbol opp) (op_longExchange opp) (op_shortExchange opp)) e']"
    by auto
  have "Call_closePosition v sy sd q \<notin> set (snd (executeHedge now st symbol l s))"
    using mon by simp
  moreover have "Call_closePosition v sy sd q \<notin> set (fst (snd (HedgeControls_executeHedge now hst opp)))"
    unfolding hc' by simp
  ultimately show ?thesis
    using mon hc by blast
qed

text \<open>Scenario S4, on the monitor between binance and bybit and on the controller between X and Y.\<close>

theorem C2_partial_fill_marks_failed_witness:
  "snd (executeHedge 0 (FundingRateMonitor None True (filling_venue (- 1 / 1000) 1000 50000)
          (rejecting_venue (15 / 10000) 1000 50000) ExchangeAdapter) ''BTCUSDT'' ''binance'' ''bybit'')
     = [Call_getBalance ''binance'', Call_getBalance ''bybit'',
        Call_getPrice ''binance'' ''BTCUSDT'', Call_getPrice ''bybit'' ''BTCUSDT'',
        Call_createOrder ''binance'' ''BTCUSDT'' Buy (Fin (1 / 100)),
        Call_createOrder ''bybit'' ''BTCUSDT'' Sell (Fin (1 / 100))]
   \<and> map_of (positionStatus (fst (executeHedge 0 (FundingRateMonitor None True
          (filling_venue (- 1 / 1000) 1000 50000) (rejecting_venue (15 / 10000) 1000 50000)
          ExchangeAdapter) ''BTCUSDT'' ''binance'' ''bybit''))) (hedge_key ''BTCUSDT'' ''binance'' ''bybit'')
     = Some (Status_String ''failed'')
   \<and> Call_closePosition ''binance'' (Some ''BTCUSDT'') Sell (Fin (1 / 100))
       \<notin> set (snd (executeHedge 0 (FundingRateMonitor None True
          (filling_venue (- 1 / 1000) 1000 50000) (rejecting_venue (15 / 10000) 1000 50000)
          ExchangeAdapter) ''BTCUSDT'' ''binance'' ''bybit''))
   \<and> Call_closePosition ''binance'' (Some ''BTCUSDT'') Sell (Fin (1 / 100))
       \<notin> set (fst (snd (HedgeControls_executeHedge 0
            ((HedgeControls None [(''X'', holding_venue [] 1000), (''Y'', rejecting_holding_venue [] 1000)])
               \<lparr>hc_activeHedges := Some []\<rparr>) XY_opportunity)))"
proof -
  let ?la = "filling_venue (- 1 / 1000) 1000 50000"
  let ?sa = "rejecting_venue (15 / 10000) 1000 50000"
  let ?st = "FundingRateMonitor None True ?la ?sa ExchangeAdapter"
  let ?hla = "holding_venue [] 1000"
  let ?hsa = "rejecting_holding_venue [] 1000"
  let ?hst = "(HedgeControls None [(''X'', ?hla), (''Y'', ?hsa)])\<lparr>hc_activeHedges := Some []\<rparr>"
  let ?b = "\<lparr>total = Fin 1000, available = Fin 1000\<rparr>"
  have hyps:
    "map_of (exchanges ?st) ''binance'' = Some ?la"
    "map_of (exchanges ?st) ''bybit'' = Some ?sa"
    "\<not> status_truthy (map_of (positionStatus ?st) (hedge_key ''BTCUSDT'' ''binance'' ''bybit''))"
    "getBalance ?la = Inr ?b"
    "getBalance ?sa = Inr ?b"
    "available ?b = Fin 1000"
    "available ?b = Fin 1000"
    "0 < trunc_at 8 (finalise (min 1000 1000 * (1 / 2)))"
    "getPrice ?la ''BTCUSDT'' = Inr (Fin 50000)"
    "getPrice ?sa ''BTCUSDT'' = Inr (Fin 50000)"
    "Fin (1 / 100)
       = toDecimalPlaces 8 (dec_div (Fin (trunc_at 8 (finalise (min 1000 1000 * (1 / 2))))) (Fin 50000))"
    "Fin (1 / 100)
       = toDecimalPlaces 8 (dec_div (Fin (trunc_at 8 (finalise (min 1000 1000 * (1 / 2))))) (Fin 50000))"
    "isl (createOrder ?la ''BTCUSDT'' Buy (Fin (1 / 100)))
       \<noteq> isl (createOrder ?sa ''BTCUSDT'' Sell (Fin (1 / 100)))"
    "hc_activeHedges ?hst = Some []"
    "map_of [] (hedge_key (op_symbol XY_opportunity) (op_longExchange XY_opportunity)
                  (op_shortExchange XY_opportunity)) = (None :: active_hedge option)"
    "map_of (hc_exchanges ?hst) (op_longExchange XY_opportunity) = Some ?hla"
    "map_of (hc_exchanges ?hst) (op_shortExchange XY_opportunity) = Some ?hsa"
    "h_getAvailableBalance ?hla = Inr (Fin 1000)"
    "h_getAvailableBalance ?hsa = Inr (Fin 1000)"
    "Fin (2 / 1000)
       = toDecimalPlaces 8 (dec_mul (dec_min (dec_div (Fin 1000) (op_longPrice XY_opportunity))
                                        (dec_div (Fin 1000) (op_shortPrice XY_opportunity))) (Fin (1 / 10)))"
    "isl (h_createOrder ?hla (op_symbol XY_opportunity) Buy (Fin (2 / 1000)))
       \<noteq> isl (h_createOrder ?hsa (op_symbol XY_opportunity) Sell (Fin (2 / 1000)))"
    by (simp_all add: dec_eval FundingRateMonitor_def filling_venue_def rejecting_venue_def
          HedgeControls_def holding_venue_def rejecting_holding_venue_def XY_opportunity_def
          hedge_key_def)
  show ?thesis
    using C2_partial_fill_marks_failed
      [OF hyps, where now = 0 and v = "''binance''" and sy = "Some ''BTCUSDT''" and sd = Sell
         and q = "Fin (1 / 100)"]
    by (simp add: hedge_key_def)
qed

text \<open>
  Claim C5 says the size is \<open>min(long_avail, short_avail) \<times> 0.5\<close>, that the open fails
  only when that is not positive, and that the quantities are \<open>size / price\<close> rounded down
  to 8 decimals. With both available balances 0.00000001 the product 0.000000005 is
  positive, yet the code truncates the size to 8 decimals, gets 0 and fails after the two
  balance queries. With balances 1000 and prices 0.003 the code submits 166666.66 on both
  legs (the quotient is cut to 8 significant digits first), while 500 / 0.003 rounded
  down to 8 decimals is 166666.66666666.
\<close>

theorem C5_size_is_truncated_first:
  "snd (executeHedge 0 (FundingRateMonitor None True (filling_venue (- 1 / 1000) (1 / 100000000) 50000)
          (filling_venue (15 / 10000) (1 / 100000000) 50000) ExchangeAdapter)
          ''BTCUSDT'' ''binance'' ''bybit'')
     = [Call_getBalance ''binance'', Call_getBalance ''bybit'']
   \<and> (0::rat) < min (1 / 100000000) (1 / 100000000) * (1 / 2)
   \<and> snd (executeHedge 0 (FundingRateMonitor None True (filling_venue (- 1 / 1000) 1000 (3 / 1000))
          (filling_venue (15 / 10000) 1000 (3 / 1000)) ExchangeAdapter)
          ''BTCUSDT'' ''binance'' ''bybit'')
     = [Call_getBalance ''binance'', Call_getBalance ''bybit'',
        Call_getPrice ''binance'' ''BTCUSDT'', Call_getPrice ''bybit'' ''BTCUSDT'',
        Call_createOrder ''binance'' ''BTCUSDT'' Buy (Fin (16666666 / 100)),
        Call_createOrder ''bybit'' ''BTCUSDT'' Sell (Fin (16666666 / 100))]
   \<and> trunc_at 8 (min 1000 1000 * (1 / 2) / (3 / 1000)) = 16666666666666 / 100000000"
  by (simp add: monitor_eval dec_eval Let_def)

text \<open>
  Claim C5 as amended. For an open on a free key between two configured venues that
  report finite available balances \<open>x\<close> and \<open>y\<close>, the size is \<open>min x y \<times> 0.5\<close> cut
  toward zero to 8 significant digits and then to 8 decimals. When it is not positive the
  open fails with the insufficient-funds error after the two balance queries, places no
  order, and marks the key \<^verbatim>\<open>'failed'\<close>. When it is positive and both venues return
  finite non-zero prices, the open submits a buy of \<open>size / long_price\<close> and a sell of
  \<open>size / short_price\<close>, each cut toward zero to 8 significant digits and then to 8
  decimals.
\<close>

theorem C5_sizing:
  assumes ex: "map_of (exchanges st) l = Some la" "map_of (exchanges st) s = Some sa"
      and new: "\<not> status_truthy (map_of (positionStatus st) (hedge_key symbol l s))"
      and bal: "getBalance la = Inr lb" "getBalance sa = Inr sb"
               "available lb = Fin x" "available sb = Fin y"
      and size: "size_usd = trunc_at 8 (finalise (min x y * (1 / 2)))"
  shows "(size_usd \<le> 0 \<longrightarrow>
            openHedge now (exchanges st) symbol l s
              = ([Call_getBalance l, Call_getBalance s], Inl InsufficientFunds)
          \<and> snd (executeHedge now st symbol l s) = [Call_getBalance l, Call_getBalance s]
          \<and> map_of (positionStatus (fst (executeHedge now st symbol l s))) (hedge_key symbol l s)
              = Some (Status_String ''failed''))
       \<and> (0 < size_usd \<longrightarrow> getPrice la symbol = Inr (Fin lp) \<longrightarrow> getPrice sa symbol = Inr (Fin sp)
             \<longrightarrow> lp \<noteq> 0 \<longrightarrow> sp \<noteq> 0 \<longrightarrow>
            snd (executeHedge now st symbol l s)
              = [Call_getBalance l, Call_getBalance s, Call_getPrice l symbol, Call_getPrice s symbol,
                 Call_createOrder l symbol Buy (Fin (trunc_at 8 (finalise (size_usd / lp)))),
                 Call_createOrder s symbol Sell (Fin (trunc_at 8 (finalise (size_usd / sp))))])"
  using new
  by (auto simp: executeHedge_def Let_def openHedge_trace [OF ex bal] size all2_def map_of_obj_set
        split: sum.splits prod.splits)

text \<open>
  Scenario S2: balances 1000 and prices 50000 give size 500 and a quantity of 0.01 on both
  legs; balances 0 give size 0 and the insufficient-funds failure.
\<close>

theorem C5_sizing_witness:
  "trunc_at 8 (finalise (min 1000 1000 * (1 / 2))) = 500
   \<and> trunc_at 8 (finalise (500 / 50000)) = 1 / 100
   \<and> snd (executeHedge 0 (FundingRateMonitor None True (filling_venue (- 1 / 1000) 1000 50000)
          (filling_venue (15 / 10000) 1000 50000) ExchangeAdapter) ''BTCUSDT'' ''binance'' ''bybit'')
     = [Call_getBalance ''binance'', Call_getBalance ''bybit'',
        Call_getPrice ''binance'' ''BTCUSDT'', Call_getPrice ''bybit'' ''BTCUSDT'',
        Call_createOrder ''binance'' ''BTCUSDT'' Buy (Fin (1 / 100)),
        Call_createOrder ''bybit'' ''BTCUSDT'' Sell (Fin (1 / 100))]
   \<and> openHedge 0 (exchanges (FundingRateMonitor None True (filling_venue (- 1 / 1000) 0 50000)
          (filling_venue (15 / 10000) 0 50000) ExchangeAdapter)) ''BTCUSDT'' ''binance'' ''bybit''
     = ([Call_getBalance ''binance'', Call_getBalance ''bybit''], Inl InsufficientFunds)"
proof -
  have sz: "trunc_at 8 (finalise 500) = 500"
    by (simp add: dec_eval)
  have q: "trunc_at 8 (finalise (1 / 100)) = 1 / 100"
    by (simp add: dec_eval)
  have z: "trunc_at 8 (finalise 0) = 0"
    by (simp add: dec_eval)
  show ?thesis
    using C5_sizing
      [where st = "FundingRateMonitor None True (filling_venue (- 1 / 1000) 1000 50000)
                     (filling_venue (15 / 10000) 1000 50000) ExchangeAdapter"
         and l = "''binance''" and s = "''bybit''" and symbol = "''BTCUSDT''"
         and la = "filling_venue (- 1 / 1000) 1000 50000"
         and sa = "filling_venue (15 / 10000) 1000 50000"
         and lb = "\<lparr>total = Fin 1000, available = Fin 1000\<rparr>"
         and sb = "\<lparr>total = Fin 1000, available = Fin 1000\<rparr>"
         and x = 1000 and y = 1000 and size_usd = 500 and lp = 50000 and sp = 50000 and now = 0]
      C5_sizing
      [where st = "FundingRateMonitor None True (filling_venue (- 1 / 1000) 0 50000)
                     (filling_venue (15 / 10000) 0 50000) ExchangeAdapter"
         and l = "''binance''" and s = "''bybit''" and symbol = "''BTCUSDT''"
         and la = "filling_venue (- 1 / 1000) 0 50000"
         and sa = "filling_venue (15 / 10000) 0 50000"
         and lb = "\<lparr>total = Fin 0, available = Fin 0\<rparr>"
         and sb = "\<lparr>total = Fin 0, available = Fin 0\<rparr>"
         and x = 0 and y = 0 and size_usd = 0 and now = 0]
    by (simp add: sz q z FundingRateMonitor_def filling_venue_def hedge_key_def)
qed


end
